theory Spec2Isabelle
  imports Complex_Main "HOL-Library.Word" "HOL-Library.Signed_Division"
begin

unbundle bit_operations_syntax

section \<open>Machine types\<close>

text \<open>
  The driver works on fixed-width integers.  A value of width \<open>n\<close> is an \<open>n word\<close>;
  \<open>uint\<close> reads it as unsigned, \<open>sint\<close> as two's complement.  Addition, subtraction
  and multiplication on words wrap around.  For the unsigned types that is the C++
  rule.  For the signed types C++ leaves overflow undefined; the model gives it the
  two's complement result, which is what the multiply and add instructions of the
  targets produce.  \<open>ucast\<close> zero-extends or truncates, \<open>scast\<close> sign-extends.  The
  operations below have the operand types that the usual arithmetic conversions give
  them, both where \<open>int\<close> has 16 bits and where it has 32: an \<open>int32_t\<close> combined with
  an \<open>int32_t\<close> or with an \<open>int\<close> constant is a 32-bit operation, and one with an
  \<open>int64_t\<close> operand is a 64-bit operation.
\<close>

type_synonym u8 = "8 word"
type_synonym u16 = "16 word"
type_synonym u32 = "32 word"
type_synonym i32 = "32 word"
type_synonym i64 = "64 word"

text \<open>C++ division of signed integers truncates towards zero (\<open>sdiv\<close> on \<open>int\<close>).\<close>

definition sdiv32 :: "i32 \<Rightarrow> i32 \<Rightarrow> i32" where
  "sdiv32 a b = word_of_int (sint a sdiv sint b)"

definition sdiv64 :: "i64 \<Rightarrow> i64 \<Rightarrow> i64" where
  "sdiv64 a b = word_of_int (sint a sdiv sint b)"

section \<open>Constants of \<open>MS5611.h\<close>\<close>

definition MS5611_ADDRESS :: u8 where "MS5611_ADDRESS = 0x77"
definition MS5611_ADC_READ :: u8 where "MS5611_ADC_READ = 0x00"
definition MS5611_RESET :: u8 where "MS5611_RESET = 0x1E"
definition MS5611_CONV_D1 :: u8 where "MS5611_CONV_D1 = 0x40"
definition MS5611_CONV_D2 :: u8 where "MS5611_CONV_D2 = 0x50"
definition MS5611_READ_PROM :: u8 where "MS5611_READ_PROM = 0xA2"

text \<open>
  \<open>enum MS5611_osr\<close> is an unscoped enumeration: an argument of that type is an
  integer that need not be one of the five enumerators.  It is modelled by its
  integer value.
\<close>

type_synonym MS5611_osr = int

definition ULTRA_HIGH_RES :: MS5611_osr where "ULTRA_HIGH_RES = 0x08"
definition HIGH_RES :: MS5611_osr where "HIGH_RES = 0x06"
definition STANDARD :: MS5611_osr where "STANDARD = 0x04"
definition LOW_POWER :: MS5611_osr where "LOW_POWER = 0x02"
definition ULTRA_LOW_POWER :: MS5611_osr where "ULTRA_LOW_POWER = 0x00"

section \<open>The bus and the clock\<close>

text \<open>
  \<open>Wire\<close> and \<open>delay\<close> belong to the platform, not to the driver.  The world outside
  the driver is a log of the calls made so far, in order, together with the values
  that the coming calls of \<open>Wire.read()\<close> will return.  \<open>Wire.read()\<close> returns an
  \<open>int\<close>, and \<open>-1\<close> once nothing is left to read.
\<close>

datatype call =
    Wire_begin_call
  | Wire_beginTransmission_call u8
  | Wire_write_call u8
  | Wire_endTransmission_call
  | Wire_requestFrom_call u8 nat
  | Wire_read_call
  | delay_call nat

record world =
  calls :: "call list"
  pending :: "int list"

definition emit :: "call \<Rightarrow> world \<Rightarrow> world" where
  "emit c w = w\<lparr>calls := calls w @ [c]\<rparr>"

definition Wire_begin :: "world \<Rightarrow> world" where
  "Wire_begin w = emit Wire_begin_call w"

definition Wire_beginTransmission :: "u8 \<Rightarrow> world \<Rightarrow> world" where
  "Wire_beginTransmission a w = emit (Wire_beginTransmission_call a) w"

definition Wire_write :: "u8 \<Rightarrow> world \<Rightarrow> world" where
  "Wire_write b w = emit (Wire_write_call b) w"

definition Wire_endTransmission :: "world \<Rightarrow> world" where
  "Wire_endTransmission w = emit Wire_endTransmission_call w"

definition Wire_requestFrom :: "u8 \<Rightarrow> nat \<Rightarrow> world \<Rightarrow> world" where
  "Wire_requestFrom a n w = emit (Wire_requestFrom_call a n) w"

definition Wire_read :: "world \<Rightarrow> int \<times> world" where
  "Wire_read w =
     (case pending w of
        [] \<Rightarrow> (- 1, emit Wire_read_call w)
      | b # bs \<Rightarrow> (b, (emit Wire_read_call w)\<lparr>pending := bs\<rparr>))"

definition delay :: "nat \<Rightarrow> world \<Rightarrow> world" where
  "delay ms w = emit (delay_call ms) w"

section \<open>The driver object\<close>

text \<open>
  The private members of \<open>class MS5611\<close>.  The member \<open>osr\<close>, which no method reads
  or writes, is the field \<open>osr_member\<close>.
\<close>

record MS5611 =
  filterCoefficient :: "u16 list"
  counter :: u8
  userOversamplingRate :: u8
  temperature2 :: i32
  offset2 :: i64
  sensitivity2 :: i64
  osr_member :: MS5611_osr

section \<open>Register access\<close>

text \<open>
  In \<open>readRegister16\<close> the two bytes are promoted to \<open>int\<close> before the shift; the
  conversion to \<open>uint16_t\<close> keeps the low 16 bits, which do not depend on the width
  of \<open>int\<close>.
\<close>

definition readRegister16 :: "u8 \<Rightarrow> world \<Rightarrow> u16 \<times> world" where
  "readRegister16 reg w =
     (let w1 = Wire_beginTransmission MS5611_ADDRESS w;
          w2 = Wire_write reg w1;
          w3 = Wire_endTransmission w2;
          w4 = Wire_requestFrom MS5611_ADDRESS 2 w3;
          (r1, w5) = Wire_read w4;
          valueHigh = (word_of_int r1 :: u8);
          (r2, w6) = Wire_read w5;
          valueLow = (word_of_int r2 :: u8);
          val = (ucast (push_bit 8 (ucast valueHigh :: i32) OR ucast valueLow) :: u16)
      in (val, w6))"

definition readRegister24 :: "u8 \<Rightarrow> world \<Rightarrow> u32 \<times> world" where
  "readRegister24 reg w =
     (let w1 = Wire_beginTransmission MS5611_ADDRESS w;
          w2 = Wire_write reg w1;
          w3 = Wire_endTransmission w2;
          w4 = Wire_requestFrom MS5611_ADDRESS 2 w3;
          (r1, w5) = Wire_read w4;
          valueXbyte = (word_of_int r1 :: u8);
          (r2, w6) = Wire_read w5;
          valueHigh = (word_of_int r2 :: u8);
          (r3, w7) = Wire_read w6;
          valueLow = (word_of_int r3 :: u8);
          val = (push_bit 16 (ucast valueXbyte :: i32) OR push_bit 8 (ucast valueHigh :: i32)
                   OR ucast valueLow :: u32)
      in (val, w7))"

section \<open>Oversampling, reset and calibration\<close>

definition setOversampling :: "MS5611_osr \<Rightarrow> MS5611 \<Rightarrow> MS5611" where
  "setOversampling osr d =
     (let d1 =
        (if osr = ULTRA_LOW_POWER then d\<lparr>counter := 1\<rparr>
         else if osr = LOW_POWER then d\<lparr>counter := 2\<rparr>
         else if osr = STANDARD then d\<lparr>counter := 3\<rparr>
         else if osr = HIGH_RES then d\<lparr>counter := 5\<rparr>
         else if osr = ULTRA_HIGH_RES then d\<lparr>counter := 10\<rparr>
         else d)
      in d1\<lparr>userOversamplingRate := word_of_int osr\<rparr>)"

definition getOversampling :: "MS5611 \<Rightarrow> u8" where
  "getOversampling d = userOversamplingRate d"

definition performReset :: "world \<Rightarrow> world" where
  "performReset w =
     Wire_endTransmission (Wire_write MS5611_RESET (Wire_beginTransmission MS5611_ADDRESS w))"

text \<open>The \<open>for\<close> loop of \<open>getCalibrationData\<close>, entered with \<open>offset = 0\<close>.\<close>

function getCalibrationData_loop :: "u8 \<Rightarrow> MS5611 \<Rightarrow> world \<Rightarrow> MS5611 \<times> world" where
  "getCalibrationData_loop offset d w =
     (if offset < 6
      then (let (v, w') = readRegister16 (MS5611_READ_PROM + offset * 2) w
            in getCalibrationData_loop (offset + 1)
                 (d\<lparr>filterCoefficient := (filterCoefficient d)[unat offset := v]\<rparr>) w')
      else (d, w))"
  by pat_completeness auto
termination
  by (relation "measure (\<lambda>(offset, d, w). 6 - unat offset)")
     (auto simp: word_less_nat_alt unat_word_ariths)

definition getCalibrationData :: "MS5611 \<Rightarrow> world \<Rightarrow> MS5611 \<times> world" where
  "getCalibrationData d w = getCalibrationData_loop 0 d w"

text \<open>\<open>MS5611::begin\<close>; the name \<open>begin\<close> is reserved in theory text.\<close>

definition MS5611_begin :: "MS5611_osr \<Rightarrow> MS5611 \<Rightarrow> world \<Rightarrow> bool \<times> MS5611 \<times> world" where
  "MS5611_begin osr d w =
     (let w1 = Wire_begin w;
          w2 = performReset w1;
          d1 = setOversampling osr d;
          w3 = delay 100 w2;
          (d2, w4) = getCalibrationData d1 w3
      in (True, d2, w4))"

section \<open>Raw measurements\<close>

text \<open>
  The command byte is the sum, taken as \<open>int\<close>, of the base command and the stored
  rate; \<open>Wire.write\<close> sends its low eight bits.
\<close>

definition readRawTemperature :: "MS5611 \<Rightarrow> world \<Rightarrow> u32 \<times> world" where
  "readRawTemperature d w =
     (let w1 = Wire_beginTransmission MS5611_ADDRESS w;
          w2 = Wire_write (MS5611_CONV_D2 + userOversamplingRate d) w1;
          w3 = Wire_endTransmission w2;
          w4 = delay (unat (counter d)) w3
      in readRegister24 MS5611_ADC_READ w4)"

definition readRawPressure :: "MS5611 \<Rightarrow> world \<Rightarrow> u32 \<times> world" where
  "readRawPressure d w =
     (let w1 = Wire_beginTransmission MS5611_ADDRESS w;
          w2 = Wire_write (MS5611_CONV_D1 + userOversamplingRate d) w1;
          w3 = Wire_endTransmission w2;
          w4 = delay (unat (counter d)) w3
      in readRegister24 MS5611_ADC_READ w4)"

section \<open>Compensated measurements\<close>

text \<open>
  \<open>readTemperature\<close>.  The product \<open>dT * dT\<close> has two \<open>int32_t\<close> operands and is a
  32-bit product.  It is divided by \<open>pow(2, 31)\<close> in double precision, which is exact
  for a 32-bit integer and a power of two where \<open>double\<close> is the 64-bit format, and
  the assignment to the \<open>int32_t\<close> member \<open>temperature2\<close> drops the fraction: together,
  division truncating towards zero.  The test before it reads the member
  \<open>temperature2\<close>, which the statement before has set to 0.  The returned \<open>double\<close> is
  the quotient of an integer by 100; the model gives the real number that this
  \<open>double\<close> approximates.
\<close>

definition readTemperature :: "bool \<Rightarrow> MS5611 \<Rightarrow> world \<Rightarrow> real \<times> MS5611 \<times> world" where
  "readTemperature compensation d w =
     (let (D2, w1) = readRawTemperature d w;
          dT = (D2 - ucast (filterCoefficient d ! 4) * 256 :: i32);
          temperature =
            (ucast (2000 + sdiv64 (scast dT * ucast (filterCoefficient d ! 5)) 8388608 :: i64) :: i32);
          d1 = d\<lparr>temperature2 := 0\<rparr>;
          d2 = (if compensation
                then (if temperature2 d1 <s 2000
                      then d1\<lparr>temperature2 := word_of_int (sint (dT * dT) sdiv 2 ^ 31)\<rparr>
                      else d1)
                else d1);
          temperature' = temperature - temperature2 d2
      in (real_of_int (sint temperature') / 100, d2, w1))"

text \<open>
  \<open>readPressure\<close>.  \<open>offset\<close> and \<open>sensitivity\<close> are built from operands cast to
  \<open>int64_t\<close>.  The squares of the second-order terms have \<open>int32_t\<close> operands and
  \<open>int\<close> constants: they, their multiples by 5, 7 and 11 and the divisions by 2 and
  4 are 32-bit operations, and only the results are widened into the \<open>int64_t\<close>
  members \<open>offset2\<close> and \<open>sensitivity2\<close>.  The result is stored in a \<open>uint32_t\<close> and
  returned as \<open>int32_t\<close>.
\<close>

definition readPressure :: "bool \<Rightarrow> MS5611 \<Rightarrow> world \<Rightarrow> i32 \<times> MS5611 \<times> world" where
  "readPressure compensation d w =
     (let (D1, w1) = readRawPressure d w;
          (D2, w2) = readRawTemperature d w1;
          dT = (D2 - ucast (filterCoefficient d ! 4) * 256 :: i32);
          offset = (ucast (filterCoefficient d ! 1) * 65536
                      + sdiv64 (ucast (filterCoefficient d ! 3) * scast dT) 128 :: i64);
          sensitivity = (ucast (filterCoefficient d ! 0) * 32768
                      + sdiv64 (ucast (filterCoefficient d ! 2) * scast dT) 256 :: i64);
          (offset', sensitivity', d') =
            (if compensation
             then (let temperature =
                         (ucast (2000 + sdiv64 (scast dT * ucast (filterCoefficient d ! 5)) 8388608 :: i64) :: i32);
                       d1 = d\<lparr>offset2 := 0, sensitivity2 := 0\<rparr>;
                       d2 = (if temperature <s 2000
                             then d1\<lparr>offset2 :=
                                       scast (sdiv32 (5 * ((temperature - 2000) * (temperature - 2000))) 2),
                                     sensitivity2 :=
                                       scast (sdiv32 (5 * ((temperature - 2000) * (temperature - 2000))) 4)\<rparr>
                             else d1);
                       d3 = (if temperature <s - 1500
                             then d2\<lparr>offset2 :=
                                       offset2 d2 + scast (7 * ((temperature + 1500) * (temperature + 1500))),
                                     sensitivity2 :=
                                       sensitivity2 d2
                                         + scast (sdiv32 (11 * ((temperature + 1500) * (temperature + 1500))) 2)\<rparr>
                             else d2)
                   in (offset - offset2 d3, sensitivity - sensitivity2 d3, d3))
             else (offset, sensitivity, d));
          pres = (ucast (sdiv64 (sdiv64 (ucast D1 * sensitivity') 2097152 - offset') 32768) :: u32)
      in (pres, d', w2))"

section \<open>Altitude conversion\<close>

text \<open>
  \<open>getAltitude\<close> and \<open>getSeaLevel\<close> compute in floating point with the library's
  \<open>pow\<close>.  Over the reals, with \<open>powr\<close> for \<open>pow\<close> and the constants as written, they
  are the functions below: an idealisation, which says what the source computes up to
  the rounding of each operation and of the \<open>float\<close> constants.
\<close>

definition getAltitude :: "real \<Rightarrow> real \<Rightarrow> real" where
  "getAltitude pressure seaLevelPressure =
     44330 * (1 - (pressure / seaLevelPressure) powr 0.1902949)"

definition getSeaLevel :: "real \<Rightarrow> real \<Rightarrow> real" where
  "getSeaLevel pressure altitude = pressure / (1 - altitude / 44330) powr 5.255"

section \<open>Auxiliary notions for the statements\<close>

text \<open>
  \<open>next_read w k\<close> is the byte that the \<open>k\<close>-th coming call of \<open>Wire.read()\<close>
  yields in world \<open>w\<close>, after its conversion to \<open>uint8_t\<close>.
\<close>

definition next_read :: "world \<Rightarrow> nat \<Rightarrow> u8" where
  "next_read w k =
     (if k < length (pending w) then word_of_int (pending w ! k) else word_of_int (- 1))"

text \<open>The big-endian combination of the next three bytes, and of the next two.\<close>

definition raw24 :: "world \<Rightarrow> u32" where
  "raw24 w =
     push_bit 16 (ucast (next_read w 0)) OR push_bit 8 (ucast (next_read w 1))
       OR ucast (next_read w 2)"

definition raw16 :: "world \<Rightarrow> u16" where
  "raw16 w = push_bit 8 (ucast (next_read w 0)) OR ucast (next_read w 1)"

text \<open>The world after the first \<open>k\<close> register reads of the calibration PROM, in order.\<close>

primrec after_prom_reads :: "world \<Rightarrow> nat \<Rightarrow> world" where
  "after_prom_reads w 0 = w"
| "after_prom_reads w (Suc k) =
     snd (readRegister16 (MS5611_READ_PROM + 2 * of_nat k) (after_prom_reads w k))"

text \<open>
  The coefficient set of the data sheet's worked example, a driver object holding it
  as \<open>begin()\<close> with its default argument leaves it, and a world in which nothing
  has been called yet and the bus answers with the given bytes.
\<close>

definition datasheet_coefficients :: "u16 list" where
  "datasheet_coefficients = [40127, 36924, 23317, 23282, 33464, 28312]"

definition datasheet_sensor :: MS5611 where
  "datasheet_sensor =
     \<lparr>filterCoefficient = datasheet_coefficients, counter = 5, userOversamplingRate = 6,
      temperature2 = 0, offset2 = 0, sensitivity2 = 0, osr_member = 0\<rparr>"

definition answering :: "int list \<Rightarrow> world" where
  "answering bs = \<lparr>calls = [], pending = bs\<rparr>"

text \<open>
  A driver object before calibration, and the twelve bytes of a PROM that holds the
  data sheet's coefficients.
\<close>

definition blank_sensor :: MS5611 where
  "blank_sensor =
     \<lparr>filterCoefficient = [0, 0, 0, 0, 0, 0], counter = 5, userOversamplingRate = 6,
      temperature2 = 0, offset2 = 0, sensitivity2 = 0, osr_member = 0\<rparr>"

definition datasheet_prom :: "int list" where
  "datasheet_prom =
     [0x9C, 0xBF, 0x90, 0x3C, 0x5B, 0x15, 0x5A, 0xF2, 0x82, 0xB8, 0x6E, 0x98]"

section \<open>The compensation formulas as stated\<close>

text \<open>
  The formulas of the data sheet, as the specification words them, over unbounded
  integers, with division truncating towards zero.  \<open>C\<close> gives the six coefficients by
  index, \<open>D1\<close> and \<open>D2\<close> are the raw pressure and temperature samples.  They are what
  the functions translated from the source are compared with.
\<close>

definition claimed_dT :: "(nat \<Rightarrow> int) \<Rightarrow> int \<Rightarrow> int" where
  "claimed_dT C D2 = D2 - C 4 * 256"

definition claimed_TEMP :: "(nat \<Rightarrow> int) \<Rightarrow> int \<Rightarrow> int" where
  "claimed_TEMP C D2 = 2000 + (claimed_dT C D2 * C 5) sdiv 8388608"

definition claimed_T2 :: "bool \<Rightarrow> (nat \<Rightarrow> int) \<Rightarrow> int \<Rightarrow> int" where
  "claimed_T2 compensation C D2 =
     (if compensation \<and> claimed_TEMP C D2 < 2000
      then (claimed_dT C D2 * claimed_dT C D2) sdiv 2 ^ 31 else 0)"

definition claimed_temperature :: "bool \<Rightarrow> (nat \<Rightarrow> int) \<Rightarrow> int \<Rightarrow> real" where
  "claimed_temperature compensation C D2 =
     real_of_int (claimed_TEMP C D2 - claimed_T2 compensation C D2) / 100"

definition claimed_OFF :: "(nat \<Rightarrow> int) \<Rightarrow> int \<Rightarrow> int" where
  "claimed_OFF C D2 = C 1 * 65536 + (C 3 * claimed_dT C D2) sdiv 128"

definition claimed_SENS :: "(nat \<Rightarrow> int) \<Rightarrow> int \<Rightarrow> int" where
  "claimed_SENS C D2 = C 0 * 32768 + (C 2 * claimed_dT C D2) sdiv 256"

definition claimed_OFF2 :: "bool \<Rightarrow> (nat \<Rightarrow> int) \<Rightarrow> int \<Rightarrow> int" where
  "claimed_OFF2 compensation C D2 =
     (let TEMP = claimed_TEMP C D2
      in if compensation \<and> TEMP < 2000
         then (5 * (TEMP - 2000)\<^sup>2) sdiv 2 + (if TEMP < - 1500 then 7 * (TEMP + 1500)\<^sup>2 else 0)
         else 0)"

definition claimed_SENS2 :: "bool \<Rightarrow> (nat \<Rightarrow> int) \<Rightarrow> int \<Rightarrow> int" where
  "claimed_SENS2 compensation C D2 =
     (let TEMP = claimed_TEMP C D2
      in if compensation \<and> TEMP < 2000
         then (5 * (TEMP - 2000)\<^sup>2) sdiv 4
                + (if TEMP < - 1500 then (11 * (TEMP + 1500)\<^sup>2) sdiv 2 else 0)
         else 0)"

definition claimed_pressure :: "bool \<Rightarrow> (nat \<Rightarrow> int) \<Rightarrow> int \<Rightarrow> int \<Rightarrow> int" where
  "claimed_pressure compensation C D1 D2 =
     ((D1 * (claimed_SENS C D2 - claimed_SENS2 compensation C D2)) sdiv 2097152
        - (claimed_OFF C D2 - claimed_OFF2 compensation C D2)) sdiv 32768"

text \<open>The coefficients of a driver object as integers.\<close>

definition coefficients :: "MS5611 \<Rightarrow> nat \<Rightarrow> int" where
  "coefficients d i = uint (filterCoefficient d ! i)"

section \<open>Sub-expressions of the source\<close>

text \<open>
  The expressions for \<open>dT\<close> and \<open>temperature\<close>, which \<open>readTemperature\<close> and
  \<open>readPressure\<close> share, and the values that \<open>readPressure\<close> leaves in the members
  \<open>offset2\<close> and \<open>sensitivity2\<close>, as functions of \<open>temperature\<close>.
\<close>

definition dT_code :: "MS5611 \<Rightarrow> u32 \<Rightarrow> i32" where
  "dT_code d D2 = D2 - ucast (filterCoefficient d ! 4) * 256"

definition temperature_code :: "MS5611 \<Rightarrow> u32 \<Rightarrow> i32" where
  "temperature_code d D2 =
     ucast (2000 + sdiv64 (scast (dT_code d D2) * ucast (filterCoefficient d ! 5)) 8388608 :: i64)"

definition off2_code :: "i32 \<Rightarrow> i64" where
  "off2_code t =
     (if t <s 2000 then scast (sdiv32 (5 * ((t - 2000) * (t - 2000))) 2) else 0)
       + (if t <s - 1500 then scast (7 * ((t + 1500) * (t + 1500))) else 0)"

definition sens2_code :: "i32 \<Rightarrow> i64" where
  "sens2_code t =
     (if t <s 2000 then scast (sdiv32 (5 * ((t - 2000) * (t - 2000))) 4) else 0)
       + (if t <s - 1500 then scast (sdiv32 (11 * ((t + 1500) * (t + 1500))) 2) else 0)"

text \<open>
  \<open>rep32 w k B\<close>: the 32-bit word \<open>w\<close> holds the integer \<open>k\<close>, of magnitude at most
  \<open>B\<close>, without wrap-around; \<open>rep64\<close> likewise for 64 bits.
\<close>

definition rep32 :: "i32 \<Rightarrow> int \<Rightarrow> int \<Rightarrow> bool" where
  "rep32 w k B \<longleftrightarrow> w = word_of_int k \<and> \<bar>k\<bar> \<le> B \<and> B < 2147483648"

definition rep64 :: "i64 \<Rightarrow> int \<Rightarrow> int \<Rightarrow> bool" where
  "rep64 w k B \<longleftrightarrow> w = word_of_int k \<and> \<bar>k\<bar> \<le> B \<and> B < 9223372036854775808"

section \<open>The register access layer\<close>

lemma Wire_read_eq:
  "Wire_read w = (if pending w = [] then - 1 else hd (pending w),
                  w\<lparr>calls := calls w @ [Wire_read_call], pending := tl (pending w)\<rparr>)"
  by (cases "pending w") (simp_all add: Wire_read_def emit_def)

lemmas wire_defs = Wire_read_eq Wire_begin_def Wire_beginTransmission_def Wire_write_def
  Wire_endTransmission_def Wire_requestFrom_def delay_def emit_def

lemma next_read_0:
  "next_read w 0 = word_of_int (if pending w = [] then - 1 else hd (pending w))"
  by (cases "pending w") (simp_all add: next_read_def)

lemma next_read_1:
  "next_read w (Suc 0) =
     word_of_int (if tl (pending w) = [] then - 1 else hd (tl (pending w)))"
  by (cases "pending w"; cases "tl (pending w)") (auto simp add: next_read_def)

lemma next_read_2:
  "next_read w 2 =
     word_of_int (if tl (tl (pending w)) = [] then - 1 else hd (tl (tl (pending w))))"
  by (cases "pending w"; cases "tl (pending w)"; cases "tl (tl (pending w))")
     (auto simp add: next_read_def)

lemma next_read_calls_upd [simp]: "next_read (w\<lparr>calls := cs\<rparr>) k = next_read w k"
  by (simp add: next_read_def)

lemma raw24_calls_upd [simp]: "raw24 (w\<lparr>calls := cs\<rparr>) = raw24 w"
  by (simp add: raw24_def)

lemma raw16_calls_upd [simp]: "raw16 (w\<lparr>calls := cs\<rparr>) = raw16 w"
  by (simp add: raw16_def)

lemma combine16:
  "(ucast (push_bit 8 (ucast (a::u8) :: i32) OR ucast (b::u8)) :: u16)
     = push_bit 8 (ucast a) OR ucast b"
  by (rule bit_word_eqI) (auto simp: bit_simps)

lemma combine24_less:
  "uint (push_bit 16 (ucast (a::u8)) OR push_bit 8 (ucast (b::u8)) OR ucast (c::u8) :: u32)
     < 2 ^ 24"
proof -
  let ?x = "push_bit 16 (ucast a) OR push_bit 8 (ucast b) OR ucast c :: u32"
  have "take_bit 24 ?x = ?x"
    by (rule bit_word_eqI) (auto simp: bit_simps dest: bit_imp_le_length)
  then have "uint ?x = take_bit 24 (uint ?x)"
    by (simp only: flip: unsigned_take_bit_eq)
  moreover have "take_bit 24 (uint ?x) < 2 ^ 24"
    by (rule take_bit_int_less_exp)
  ultimately show ?thesis
    by (simp only:)
qed

lemma raw24_less: "uint (raw24 w) < 2 ^ 24"
  unfolding raw24_def by (rule combine24_less)

lemma readRegister16_eq:
  "readRegister16 reg w =
     (raw16 w,
      w\<lparr>calls := calls w @ [Wire_beginTransmission_call MS5611_ADDRESS, Wire_write_call reg,
          Wire_endTransmission_call, Wire_requestFrom_call MS5611_ADDRESS 2,
          Wire_read_call, Wire_read_call],
        pending := drop 2 (pending w)\<rparr>)"
  by (simp add: readRegister16_def wire_defs Let_def next_read_0 next_read_1 combine16 raw16_def
        drop_Suc numeral_2_eq_2 tl_drop split: prod.splits)

lemma readRegister24_eq:
  "readRegister24 reg w =
     (raw24 w,
      w\<lparr>calls := calls w @ [Wire_beginTransmission_call MS5611_ADDRESS, Wire_write_call reg,
          Wire_endTransmission_call, Wire_requestFrom_call MS5611_ADDRESS 2,
          Wire_read_call, Wire_read_call, Wire_read_call],
        pending := drop 3 (pending w)\<rparr>)"
  by (simp add: readRegister24_def wire_defs Let_def next_read_0 next_read_1 next_read_2 raw24_def
        drop_Suc numeral_3_eq_3 tl_drop split: prod.splits)

text \<open>
  C5.  For every register address and every world, \<open>readRegister24\<close> writes the
  register address in a transmission of its own, requests 2 bytes from the device
  and then reads three; it returns the three bytes read combined as
  \<open>(byte0 << 16) | (byte1 << 8) | byte2\<close>, a value below \<open>2^24\<close>.  The number of bytes
  requested is 2, not 3: where the bus hands over the two bytes \<open>0x8A\<close>, \<open>0xA2\<close> and
  no more, the third read yields \<open>-1\<close> and the result is \<open>0x8AA2FF\<close>.
\<close>

theorem readRegister24_requests_two_bytes:
  "calls (snd (readRegister24 reg w)) =
     calls w @ [Wire_beginTransmission_call MS5611_ADDRESS, Wire_write_call reg,
       Wire_endTransmission_call, Wire_requestFrom_call MS5611_ADDRESS 2,
       Wire_read_call, Wire_read_call, Wire_read_call]
   \<and> fst (readRegister24 reg w) =
       push_bit 16 (ucast (next_read w 0)) OR push_bit 8 (ucast (next_read w 1))
         OR ucast (next_read w 2)
   \<and> uint (fst (readRegister24 reg w)) < 2 ^ 24
   \<and> fst (readRegister24 MS5611_ADC_READ (answering [0x8A, 0xA2])) = 0x8AA2FF"
proof (intro conjI)
  show "calls (snd (readRegister24 reg w)) =
     calls w @ [Wire_beginTransmission_call MS5611_ADDRESS, Wire_write_call reg,
       Wire_endTransmission_call, Wire_requestFrom_call MS5611_ADDRESS 2,
       Wire_read_call, Wire_read_call, Wire_read_call]"
    by (simp add: readRegister24_eq)
  show "fst (readRegister24 reg w) =
       push_bit 16 (ucast (next_read w 0)) OR push_bit 8 (ucast (next_read w 1))
         OR ucast (next_read w 2)"
    by (simp only: readRegister24_eq fst_conv raw24_def)
  show "uint (fst (readRegister24 reg w)) < 2 ^ 24"
    by (simp only: readRegister24_eq fst_conv raw24_less)
  show "fst (readRegister24 MS5611_ADC_READ (answering [0x8A, 0xA2])) = 0x8AA2FF"
    by code_simp
qed

section \<open>Calibration loading\<close>

declare getCalibrationData_loop.simps [simp del]

lemma getCalibrationData_loop_step:
  "offset < 6 \<Longrightarrow> getCalibrationData_loop offset d w =
     getCalibrationData_loop (offset + 1)
       (d\<lparr>filterCoefficient :=
            (filterCoefficient d)[unat offset :=
               fst (readRegister16 (MS5611_READ_PROM + offset * 2) w)]\<rparr>)
       (snd (readRegister16 (MS5611_READ_PROM + offset * 2) w))"
  by (subst getCalibrationData_loop.simps) (simp add: split_beta)

lemma getCalibrationData_loop_exit:
  "\<not> offset < 6 \<Longrightarrow> getCalibrationData_loop offset d w = (d, w)"
  by (subst getCalibrationData_loop.simps) simp

lemma length_six:
  assumes "length xs = 6"
  obtains a b c d e f where "xs = [a, b, c, d, e, f]"
  using assms by (auto simp: length_Suc_conv eval_nat_numeral)

lemma after_prom_reads_eq:
  "after_prom_reads w k =
     w\<lparr>calls := calls w @ concat (map (\<lambda>j. [Wire_beginTransmission_call MS5611_ADDRESS,
                 Wire_write_call (MS5611_READ_PROM + 2 * of_nat j), Wire_endTransmission_call,
                 Wire_requestFrom_call MS5611_ADDRESS 2, Wire_read_call, Wire_read_call]) [0..<k]),
       pending := drop (2 * k) (pending w)\<rparr>"
  by (induction k) (simp_all add: readRegister16_eq add.commute)

text \<open>
  C6.  On a driver object with its six coefficient slots, \<open>getCalibrationData\<close>
  stores into slot \<open>k\<close>, for each \<open>k\<close> from 0 to 5, the result of the 16-bit register
  read at address \<open>MS5611_READ_PROM + 2 * k\<close>, the six reads being made in that order;
  it replaces all six coefficients and changes no other member of the object.  It
  returns nothing but the new states.  The calls it makes are the six register reads
  and it consumes twelve bytes.
\<close>

theorem getCalibrationData_loads_six:
  assumes "length (filterCoefficient d) = 6"
  shows "getCalibrationData d w =
     (d\<lparr>filterCoefficient :=
          map (\<lambda>k. fst (readRegister16 (MS5611_READ_PROM + 2 * of_nat k) (after_prom_reads w k)))
            [0..<6]\<rparr>,
      after_prom_reads w 6)
    \<and> calls (after_prom_reads w 6) =
        calls w @ concat (map (\<lambda>k. [Wire_beginTransmission_call MS5611_ADDRESS,
                 Wire_write_call (MS5611_READ_PROM + 2 * of_nat k), Wire_endTransmission_call,
                 Wire_requestFrom_call MS5611_ADDRESS 2, Wire_read_call, Wire_read_call]) [0..<6])
    \<and> pending (after_prom_reads w 6) = drop 12 (pending w)"
proof (intro conjI)
  from assms obtain a b c e f g where xs: "filterCoefficient d = [a, b, c, e, f, g]"
    by (rule length_six)
  have up: "[0..<6] = [0, 1, 2, 3, 4, 5]"
    by (simp add: upt_rec)
  have lt: "(0::u8) < 6" "(1::u8) < 6" "(2::u8) < 6" "(3::u8) < 6" "(4::u8) < 6" "(5::u8) < 6"
    "\<not> (6::u8) < 6"
    by simp_all
  have un: "unat (0::u8) = 0" "unat (1::u8) = 1" "unat (2::u8) = 2" "unat (3::u8) = 3"
    "unat (4::u8) = 4" "unat (5::u8) = 5"
    by simp_all
  have e6: "getCalibrationData_loop 6 D W = (D, W)" for D W
    by (rule getCalibrationData_loop_exit[OF lt(7)])
  have e5: "getCalibrationData_loop 5 D W =
      getCalibrationData_loop 6
        (D\<lparr>filterCoefficient :=
             (filterCoefficient D)[5 := fst (readRegister16 (MS5611_READ_PROM + 10) W)]\<rparr>)
        (snd (readRegister16 (MS5611_READ_PROM + 10) W))" for D W
    using getCalibrationData_loop_step[OF lt(6), of D W] by (simp add: un)
  have e4: "getCalibrationData_loop 4 D W =
      getCalibrationData_loop 5
        (D\<lparr>filterCoefficient :=
             (filterCoefficient D)[4 := fst (readRegister16 (MS5611_READ_PROM + 8) W)]\<rparr>)
        (snd (readRegister16 (MS5611_READ_PROM + 8) W))" for D W
    using getCalibrationData_loop_step[OF lt(5), of D W] by (simp add: un)
  have e3: "getCalibrationData_loop 3 D W =
      getCalibrationData_loop 4
        (D\<lparr>filterCoefficient :=
             (filterCoefficient D)[3 := fst (readRegister16 (MS5611_READ_PROM + 6) W)]\<rparr>)
        (snd (readRegister16 (MS5611_READ_PROM + 6) W))" for D W
    using getCalibrationData_loop_step[OF lt(4), of D W] by (simp add: un)
  have e2: "getCalibrationData_loop 2 D W =
      getCalibrationData_loop 3
        (D\<lparr>filterCoefficient :=
             (filterCoefficient D)[2 := fst (readRegister16 (MS5611_READ_PROM + 4) W)]\<rparr>)
        (snd (readRegister16 (MS5611_READ_PROM + 4) W))" for D W
    using getCalibrationData_loop_step[OF lt(3), of D W] by (simp add: un)
  have e1: "getCalibrationData_loop 1 D W =
      getCalibrationData_loop 2
        (D\<lparr>filterCoefficient :=
             (filterCoefficient D)[1 := fst (readRegister16 (MS5611_READ_PROM + 2) W)]\<rparr>)
        (snd (readRegister16 (MS5611_READ_PROM + 2) W))" for D W
    using getCalibrationData_loop_step[OF lt(2), of D W] by (simp add: un)
  have e0: "getCalibrationData_loop 0 D W =
      getCalibrationData_loop 1
        (D\<lparr>filterCoefficient :=
             (filterCoefficient D)[0 := fst (readRegister16 (MS5611_READ_PROM + 0) W)]\<rparr>)
        (snd (readRegister16 (MS5611_READ_PROM + 0) W))" for D W
    using getCalibrationData_loop_step[OF lt(1), of D W] by (simp add: un)
  show "getCalibrationData d w =
     (d\<lparr>filterCoefficient :=
          map (\<lambda>k. fst (readRegister16 (MS5611_READ_PROM + 2 * of_nat k) (after_prom_reads w k)))
            [0..<6]\<rparr>,
      after_prom_reads w 6)"
    unfolding getCalibrationData_def
    by (simp add: e0 e1 e2 e3 e4 e5 e6 xs up) (simp add: eval_nat_numeral)
  show "calls (after_prom_reads w 6) =
        calls w @ concat (map (\<lambda>k. [Wire_beginTransmission_call MS5611_ADDRESS,
                 Wire_write_call (MS5611_READ_PROM + 2 * of_nat k), Wire_endTransmission_call,
                 Wire_requestFrom_call MS5611_ADDRESS 2, Wire_read_call, Wire_read_call]) [0..<6])"
    by (simp only: after_prom_reads_eq) simp
  show "pending (after_prom_reads w 6) = drop 12 (pending w)"
    by (simp only: after_prom_reads_eq) simp
qed

theorem getCalibrationData_loads_six_witness:
  "length (filterCoefficient blank_sensor) = 6
   \<and> getCalibrationData blank_sensor (answering datasheet_prom) =
       (datasheet_sensor,
        \<lparr>calls = concat (map (\<lambda>k. [Wire_beginTransmission_call 0x77,
                   Wire_write_call (0xA2 + 2 * of_nat k), Wire_endTransmission_call,
                   Wire_requestFrom_call 0x77 2, Wire_read_call, Wire_read_call]) [0..<6]),
         pending = []\<rparr>)"
  using getCalibrationData_loads_six [of blank_sensor "answering datasheet_prom"]
  apply (simp add: blank_sensor_def datasheet_sensor_def datasheet_coefficients_def
      after_prom_reads_eq readRegister16_eq)
  apply (simp add: answering_def datasheet_prom_def raw16_def next_read_def upt_rec
      MS5611_ADDRESS_def MS5611_READ_PROM_def)
  done

section \<open>Oversampling\<close>

lemmas osr_defs =
  ULTRA_HIGH_RES_def HIGH_RES_def STANDARD_def LOW_POWER_def ULTRA_LOW_POWER_def

lemma readRawTemperature_eq:
  "readRawTemperature d w =
     (raw24 w,
      w\<lparr>calls := calls w @ [Wire_beginTransmission_call MS5611_ADDRESS,
          Wire_write_call (MS5611_CONV_D2 + userOversamplingRate d),
          Wire_endTransmission_call, delay_call (unat (counter d)),
          Wire_beginTransmission_call MS5611_ADDRESS, Wire_write_call MS5611_ADC_READ,
          Wire_endTransmission_call, Wire_requestFrom_call MS5611_ADDRESS 2,
          Wire_read_call, Wire_read_call, Wire_read_call],
       pending := drop 3 (pending w)\<rparr>)"
  by (simp add: readRawTemperature_def Let_def readRegister24_eq Wire_beginTransmission_def
        Wire_write_def Wire_endTransmission_def delay_def emit_def)

lemma readRawPressure_eq:
  "readRawPressure d w =
     (raw24 w,
      w\<lparr>calls := calls w @ [Wire_beginTransmission_call MS5611_ADDRESS,
          Wire_write_call (MS5611_CONV_D1 + userOversamplingRate d),
          Wire_endTransmission_call, delay_call (unat (counter d)),
          Wire_beginTransmission_call MS5611_ADDRESS, Wire_write_call MS5611_ADC_READ,
          Wire_endTransmission_call, Wire_requestFrom_call MS5611_ADDRESS 2,
          Wire_read_call, Wire_read_call, Wire_read_call],
       pending := drop 3 (pending w)\<rparr>)"
  by (simp add: readRawPressure_def Let_def readRegister24_eq Wire_beginTransmission_def
        Wire_write_def Wire_endTransmission_def delay_def emit_def)

text \<open>
  C7, as the code has it.  For an argument that is none of the five enumerators,
  \<open>setOversampling\<close> leaves \<open>counter\<close>, hence the settling delay, and every other
  member unchanged, but it does store the argument, cut to eight bits, in
  \<open>userOversamplingRate\<close>: \<open>getOversampling\<close> returns it afterwards, and the next
  conversion command is the base command plus it, followed by the old delay.
\<close>

theorem setOversampling_invalid_value:
  assumes "osr \<notin> {ULTRA_LOW_POWER, LOW_POWER, STANDARD, HIGH_RES, ULTRA_HIGH_RES}"
  shows "setOversampling osr d = d\<lparr>userOversamplingRate := word_of_int osr\<rparr>
       \<and> counter (setOversampling osr d) = counter d
       \<and> getOversampling (setOversampling osr d) = word_of_int osr
       \<and> readRawTemperature (setOversampling osr d) w =
           readRegister24 MS5611_ADC_READ
             (w\<lparr>calls := calls w @ [Wire_beginTransmission_call MS5611_ADDRESS,
                   Wire_write_call (MS5611_CONV_D2 + word_of_int osr),
                   Wire_endTransmission_call, delay_call (unat (counter d))]\<rparr>)
       \<and> readRawPressure (setOversampling osr d) w =
           readRegister24 MS5611_ADC_READ
             (w\<lparr>calls := calls w @ [Wire_beginTransmission_call MS5611_ADDRESS,
                   Wire_write_call (MS5611_CONV_D1 + word_of_int osr),
                   Wire_endTransmission_call, delay_call (unat (counter d))]\<rparr>)"
  using assms
  by (simp add: setOversampling_def getOversampling_def readRawTemperature_eq readRawPressure_eq
      readRegister24_eq)

theorem setOversampling_invalid_value_witness:
  "(1::int) \<notin> {ULTRA_LOW_POWER, LOW_POWER, STANDARD, HIGH_RES, ULTRA_HIGH_RES}
   \<and> setOversampling 1 datasheet_sensor = datasheet_sensor\<lparr>userOversamplingRate := 1\<rparr>
   \<and> counter (setOversampling 1 datasheet_sensor) = 5
   \<and> getOversampling (setOversampling 1 datasheet_sensor) = 1
   \<and> readRawTemperature (setOversampling 1 datasheet_sensor) (answering [0x82, 0xC1, 0x3E]) =
       (8569150,
        \<lparr>calls = [Wire_beginTransmission_call 0x77, Wire_write_call 0x51,
           Wire_endTransmission_call, delay_call 5,
           Wire_beginTransmission_call 0x77, Wire_write_call 0x00, Wire_endTransmission_call,
           Wire_requestFrom_call 0x77 2, Wire_read_call, Wire_read_call, Wire_read_call],
         pending = []\<rparr>)"
proof -
  have h: "(1::int) \<notin> {ULTRA_LOW_POWER, LOW_POWER, STANDARD, HIGH_RES, ULTRA_HIGH_RES}"
    by (simp add: osr_defs)
  note t = setOversampling_invalid_value [OF h, of datasheet_sensor "answering [0x82, 0xC1, 0x3E]"]
  have a: "setOversampling 1 datasheet_sensor = datasheet_sensor\<lparr>userOversamplingRate := 1\<rparr>"
    using t [THEN conjunct1] by simp
  have b: "counter (setOversampling 1 datasheet_sensor) = 5"
    using t [THEN conjunct2, THEN conjunct1] by (simp add: datasheet_sensor_def)
  have c: "getOversampling (setOversampling 1 datasheet_sensor) = 1"
    using t [THEN conjunct2, THEN conjunct2, THEN conjunct1] by simp
  have "readRegister24 MS5611_ADC_READ
          ((answering [0x82, 0xC1, 0x3E])\<lparr>calls := calls (answering [0x82, 0xC1, 0x3E])
             @ [Wire_beginTransmission_call MS5611_ADDRESS,
                Wire_write_call (MS5611_CONV_D2 + word_of_int 1),
                Wire_endTransmission_call, delay_call (unat (counter datasheet_sensor))]\<rparr>) =
       (8569150,
        \<lparr>calls = [Wire_beginTransmission_call 0x77, Wire_write_call 0x51,
           Wire_endTransmission_call, delay_call 5,
           Wire_beginTransmission_call 0x77, Wire_write_call 0x00, Wire_endTransmission_call,
           Wire_requestFrom_call 0x77 2, Wire_read_call, Wire_read_call, Wire_read_call],
         pending = []\<rparr>)"
    by (simp add: datasheet_sensor_def readRegister24_eq MS5611_ADDRESS_def MS5611_ADC_READ_def
        MS5611_CONV_D2_def answering_def raw24_def next_read_def)
  then have e: "readRawTemperature (setOversampling 1 datasheet_sensor)
          (answering [0x82, 0xC1, 0x3E]) =
       (8569150,
        \<lparr>calls = [Wire_beginTransmission_call 0x77, Wire_write_call 0x51,
           Wire_endTransmission_call, delay_call 5,
           Wire_beginTransmission_call 0x77, Wire_write_call 0x00, Wire_endTransmission_call,
           Wire_requestFrom_call 0x77 2, Wire_read_call, Wire_read_call, Wire_read_call],
         pending = []\<rparr>)"
    by (simp only: t [THEN conjunct2, THEN conjunct2, THEN conjunct2, THEN conjunct1])
  from h a b c e show ?thesis
    by (intro conjI)
qed

text \<open>
  C7 as stated fails, in that the stored rate does not stay in effect: on an object
  whose rate is \<open>HIGH_RES\<close>, after \<open>setOversampling\<close> with the value 1,
  \<open>getOversampling\<close> returns 1 instead of 6 and the temperature conversion command is
  \<open>0x51\<close> instead of \<open>0x56\<close>.
\<close>

theorem setOversampling_invalid_value_changes_rate:
  "getOversampling datasheet_sensor = 6
   \<and> getOversampling (setOversampling 1 datasheet_sensor) = 1
   \<and> calls (snd (readRawTemperature datasheet_sensor (answering []))) ! 1
       = Wire_write_call 0x56
   \<and> calls (snd (readRawTemperature (setOversampling 1 datasheet_sensor) (answering []))) ! 1
       = Wire_write_call 0x51
   \<and> readRawTemperature (setOversampling 1 datasheet_sensor) (answering [])
       \<noteq> readRawTemperature datasheet_sensor (answering [])"
  by (simp add: readRawTemperature_eq setOversampling_def getOversampling_def osr_defs
      datasheet_sensor_def answering_def MS5611_CONV_D2_def)

section \<open>The conversion protocol\<close>

text \<open>
  C8.  For each of the five oversampling settings, once set, \<open>readRawTemperature\<close>
  and \<open>readRawPressure\<close> send, in a transmission to the device, the command byte
  \<open>MS5611_CONV_D2\<close> respectively \<open>MS5611_CONV_D1\<close> plus the setting's code, wait the
  setting's delay, the same for both kinds, and then do what the 24-bit read of
  \<open>MS5611_ADC_READ\<close> does, returning its result.  The delays are 1, 2, 3, 5 and 10
  from \<open>ULTRA_LOW_POWER\<close> to \<open>ULTRA_HIGH_RES\<close>, strictly increasing.
\<close>

theorem raw_measurement_protocol:
  "(\<forall>(osr, ms) \<in> set [(ULTRA_LOW_POWER, 1), (LOW_POWER, 2), (STANDARD, 3), (HIGH_RES, 5),
                         (ULTRA_HIGH_RES, 10)].
     readRawTemperature (setOversampling osr d) w =
       readRegister24 MS5611_ADC_READ
         (w\<lparr>calls := calls w @ [Wire_beginTransmission_call MS5611_ADDRESS,
               Wire_write_call (MS5611_CONV_D2 + word_of_int osr),
               Wire_endTransmission_call, delay_call ms]\<rparr>)
   \<and> readRawPressure (setOversampling osr d) w =
       readRegister24 MS5611_ADC_READ
         (w\<lparr>calls := calls w @ [Wire_beginTransmission_call MS5611_ADDRESS,
               Wire_write_call (MS5611_CONV_D1 + word_of_int osr),
               Wire_endTransmission_call, delay_call ms]\<rparr>))
   \<and> sorted_wrt (<) (map (\<lambda>osr. unat (counter (setOversampling osr d)))
         [ULTRA_LOW_POWER, LOW_POWER, STANDARD, HIGH_RES, ULTRA_HIGH_RES])"
  by (simp add: readRawTemperature_eq readRawPressure_eq readRegister24_eq setOversampling_def
      osr_defs)

theorem raw_measurement_protocol_witness:
  "(HIGH_RES, 5 :: nat) \<in> set [(ULTRA_LOW_POWER, 1), (LOW_POWER, 2), (STANDARD, 3), (HIGH_RES, 5),
                         (ULTRA_HIGH_RES, 10)]
   \<and> readRawTemperature (setOversampling HIGH_RES datasheet_sensor) (answering [0x82, 0xC1, 0x3E]) =
       (8569150,
        \<lparr>calls = [Wire_beginTransmission_call 0x77, Wire_write_call 0x56,
           Wire_endTransmission_call, delay_call 5,
           Wire_beginTransmission_call 0x77, Wire_write_call 0x00, Wire_endTransmission_call,
           Wire_requestFrom_call 0x77 2, Wire_read_call, Wire_read_call, Wire_read_call],
         pending = []\<rparr>)
   \<and> readRawPressure (setOversampling HIGH_RES datasheet_sensor) (answering [0x8A, 0xA2, 0x1A]) =
       (9085466,
        \<lparr>calls = [Wire_beginTransmission_call 0x77, Wire_write_call 0x46,
           Wire_endTransmission_call, delay_call 5,
           Wire_beginTransmission_call 0x77, Wire_write_call 0x00, Wire_endTransmission_call,
           Wire_requestFrom_call 0x77 2, Wire_read_call, Wire_read_call, Wire_read_call],
         pending = []\<rparr>)"
  using raw_measurement_protocol [of datasheet_sensor "answering [0x82, 0xC1, 0x3E]"]
    raw_measurement_protocol [of datasheet_sensor "answering [0x8A, 0xA2, 0x1A]"]
  apply (simp add: osr_defs)
  apply (simp add: readRegister24_eq MS5611_ADDRESS_def MS5611_ADC_READ_def MS5611_CONV_D2_def
      MS5611_CONV_D1_def answering_def raw24_def next_read_def)
  done

section \<open>Initialisation\<close>

text \<open>
  C10.  \<open>begin\<close> returns \<open>true\<close> for every oversampling argument, every driver
  object and every behaviour of the bus.
\<close>

theorem begin_returns_true: "fst (MS5611_begin osr d w) = True"
  by (simp add: MS5611_begin_def Let_def split: prod.splits)

section \<open>Words and the integers they hold\<close>

lemma sint32_eq:
  "- 2147483648 \<le> k \<Longrightarrow> k < 2147483648 \<Longrightarrow> sint (word_of_int k :: 32 word) = k"
  by (simp add: signed_of_int signed_take_bit_int_eq_self)

lemma sint64_eq:
  "- 9223372036854775808 \<le> k \<Longrightarrow> k < 9223372036854775808
     \<Longrightarrow> sint (word_of_int k :: 64 word) = k"
  by (simp add: signed_of_int signed_take_bit_int_eq_self)

lemma ucast_64_32: "(ucast (word_of_int k :: 64 word) :: 32 word) = word_of_int k"
  by transfer simp

lemma uint16_less: "uint (w :: 16 word) < 65536"
  using uint_bounded [of w] by simp

lemma abs_sdiv_pos:
  assumes c: "0 < c"
  shows "\<bar>(a::int) sdiv c\<bar> = \<bar>a\<bar> div c"
proof -
  have "0 \<le> \<bar>a\<bar> div c"
    using c by (simp add: pos_imp_zdiv_nonneg_iff)
  then show ?thesis
    using c by (cases "a = 0") (simp_all add: signed_divide_int_def abs_mult abs_sgn_eq)
qed

lemma abs_sdiv_le: "0 < c \<Longrightarrow> \<bar>a\<bar> \<le> M \<Longrightarrow> \<bar>(a::int) sdiv c\<bar> \<le> M div c"
  by (simp add: abs_sdiv_pos zdiv_mono1)

lemma abs_mult_le: "\<bar>a\<bar> \<le> A \<Longrightarrow> \<bar>b\<bar> \<le> B \<Longrightarrow> \<bar>a * b :: int\<bar> \<le> A * B"
  by (simp add: abs_mult mult_mono)

lemma div_le_self_int: "0 \<le> A \<Longrightarrow> 0 < m \<Longrightarrow> (A::int) div m \<le> A"
  using zdiv_mono2 [of A 1 m] by simp

lemma sdiv_small: "\<bar>a\<bar> < c \<Longrightarrow> (a::int) sdiv c = 0"
  by (simp add: signed_divide_int_def)

lemma rep32_D:
  assumes "rep32 w k B"
  shows "w = word_of_int k" "\<bar>k\<bar> \<le> B" "B < 2147483648"
  using assms by (simp_all only: rep32_def)

lemma rep32_I:
  "w = word_of_int k \<Longrightarrow> \<bar>k\<bar> \<le> B \<Longrightarrow> B < 2147483648 \<Longrightarrow> rep32 w k B"
  by (simp only: rep32_def)

lemma rep32_sint:
  assumes "rep32 w k B"
  shows "sint w = k"
proof -
  have "- 2147483648 \<le> k" "k < 2147483648"
    using rep32_D(2,3) [OF assms] by linarith+
  then have "sint (word_of_int k :: 32 word) = k"
    by (rule sint32_eq)
  then show ?thesis
    by (simp only: rep32_D(1) [OF assms])
qed

lemma rep32_tighten:
  "rep32 w k B \<Longrightarrow> \<bar>k\<bar> \<le> B' \<Longrightarrow> B' < 2147483648 \<Longrightarrow> rep32 w k B'"
  by (simp only: rep32_def)

lemma rep32_numeral:
  "numeral n < (2147483648 :: int) \<Longrightarrow> rep32 (numeral n) (numeral n) (numeral n)"
  by (simp add: rep32_def)

lemma rep32_add:
  assumes "rep32 a x A" "rep32 b y B" "A + B < 2147483648"
  shows "rep32 (a + b) (x + y) (A + B)"
proof (rule rep32_I)
  show "a + b = word_of_int (x + y)"
    by (simp only: rep32_D(1) [OF assms(1)] rep32_D(1) [OF assms(2)] wi_hom_add)
  show "\<bar>x + y\<bar> \<le> A + B"
    using rep32_D(2) [OF assms(1)] rep32_D(2) [OF assms(2)] by linarith
  show "A + B < 2147483648" by (rule assms(3))
qed

lemma rep32_sub:
  assumes "rep32 a x A" "rep32 b y B" "A + B < 2147483648"
  shows "rep32 (a - b) (x - y) (A + B)"
proof (rule rep32_I)
  show "a - b = word_of_int (x - y)"
    by (simp only: rep32_D(1) [OF assms(1)] rep32_D(1) [OF assms(2)] wi_hom_sub)
  show "\<bar>x - y\<bar> \<le> A + B"
    using rep32_D(2) [OF assms(1)] rep32_D(2) [OF assms(2)] by linarith
  show "A + B < 2147483648" by (rule assms(3))
qed

lemma rep32_mult:
  assumes "rep32 a x A" "rep32 b y B" "A * B < 2147483648"
  shows "rep32 (a * b) (x * y) (A * B)"
proof (rule rep32_I)
  show "a * b = word_of_int (x * y)"
    by (simp only: rep32_D(1) [OF assms(1)] rep32_D(1) [OF assms(2)] wi_hom_mult)
  show "\<bar>x * y\<bar> \<le> A * B"
    using rep32_D(2) [OF assms(1)] rep32_D(2) [OF assms(2)] by (rule abs_mult_le)
  show "A * B < 2147483648" by (rule assms(3))
qed

lemma rep32_sdiv:
  assumes "rep32 a x A" "rep32 c m M" "0 < m"
  shows "rep32 (sdiv32 a c) (x sdiv m) (A div m)"
proof (rule rep32_I)
  have xA: "\<bar>x\<bar> \<le> A" and AN: "A < 2147483648"
    using rep32_D(2,3) [OF assms(1)] by simp_all
  have A: "0 \<le> A" using xA by linarith
  have "A div m \<le> A" using A assms(3) by (rule div_le_self_int)
  then show "A div m < 2147483648" using AN by linarith
  show "\<bar>x sdiv m\<bar> \<le> A div m"
    using assms(3) xA by (rule abs_sdiv_le)
  show "sdiv32 a c = word_of_int (x sdiv m)"
    by (simp only: sdiv32_def rep32_sint [OF assms(1)] rep32_sint [OF assms(2)])
qed

lemma rep64_D:
  assumes "rep64 w k B"
  shows "w = word_of_int k" "\<bar>k\<bar> \<le> B" "B < 9223372036854775808"
  using assms by (simp_all only: rep64_def)

lemma rep64_I:
  "w = word_of_int k \<Longrightarrow> \<bar>k\<bar> \<le> B \<Longrightarrow> B < 9223372036854775808 \<Longrightarrow> rep64 w k B"
  by (simp only: rep64_def)

lemma rep64_sint:
  assumes "rep64 w k B"
  shows "sint w = k"
proof -
  have "- 9223372036854775808 \<le> k" "k < 9223372036854775808"
    using rep64_D(2,3) [OF assms] by linarith+
  then have "sint (word_of_int k :: 64 word) = k"
    by (rule sint64_eq)
  then show ?thesis
    by (simp only: rep64_D(1) [OF assms])
qed

lemma rep64_tighten:
  "rep64 w k B \<Longrightarrow> \<bar>k\<bar> \<le> B' \<Longrightarrow> B' < 9223372036854775808 \<Longrightarrow> rep64 w k B'"
  by (simp only: rep64_def)

lemma rep64_numeral:
  "numeral n < (9223372036854775808 :: int) \<Longrightarrow> rep64 (numeral n) (numeral n) (numeral n)"
  by (simp add: rep64_def)

lemma rep64_add:
  assumes "rep64 a x A" "rep64 b y B" "A + B < 9223372036854775808"
  shows "rep64 (a + b) (x + y) (A + B)"
proof (rule rep64_I)
  show "a + b = word_of_int (x + y)"
    by (simp only: rep64_D(1) [OF assms(1)] rep64_D(1) [OF assms(2)] wi_hom_add)
  show "\<bar>x + y\<bar> \<le> A + B"
    using rep64_D(2) [OF assms(1)] rep64_D(2) [OF assms(2)] by linarith
  show "A + B < 9223372036854775808" by (rule assms(3))
qed

lemma rep64_sub:
  assumes "rep64 a x A" "rep64 b y B" "A + B < 9223372036854775808"
  shows "rep64 (a - b) (x - y) (A + B)"
proof (rule rep64_I)
  show "a - b = word_of_int (x - y)"
    by (simp only: rep64_D(1) [OF assms(1)] rep64_D(1) [OF assms(2)] wi_hom_sub)
  show "\<bar>x - y\<bar> \<le> A + B"
    using rep64_D(2) [OF assms(1)] rep64_D(2) [OF assms(2)] by linarith
  show "A + B < 9223372036854775808" by (rule assms(3))
qed

lemma rep64_mult:
  assumes "rep64 a x A" "rep64 b y B" "A * B < 9223372036854775808"
  shows "rep64 (a * b) (x * y) (A * B)"
proof (rule rep64_I)
  show "a * b = word_of_int (x * y)"
    by (simp only: rep64_D(1) [OF assms(1)] rep64_D(1) [OF assms(2)] wi_hom_mult)
  show "\<bar>x * y\<bar> \<le> A * B"
    using rep64_D(2) [OF assms(1)] rep64_D(2) [OF assms(2)] by (rule abs_mult_le)
  show "A * B < 9223372036854775808" by (rule assms(3))
qed

lemma rep64_sdiv:
  assumes "rep64 a x A" "rep64 c m M" "0 < m"
  shows "rep64 (sdiv64 a c) (x sdiv m) (A div m)"
proof (rule rep64_I)
  have xA: "\<bar>x\<bar> \<le> A" and AN: "A < 9223372036854775808"
    using rep64_D(2,3) [OF assms(1)] by simp_all
  have A: "0 \<le> A" using xA by linarith
  have "A div m \<le> A" using A assms(3) by (rule div_le_self_int)
  then show "A div m < 9223372036854775808" using AN by linarith
  show "\<bar>x sdiv m\<bar> \<le> A div m"
    using assms(3) xA by (rule abs_sdiv_le)
  show "sdiv64 a c = word_of_int (x sdiv m)"
    by (simp only: sdiv64_def rep64_sint [OF assms(1)] rep64_sint [OF assms(2)])
qed

lemma rep64_ucast16: "rep64 (ucast (c :: u16)) (uint c) 65535"
proof (rule rep64_I)
  show "(ucast c :: i64) = word_of_int (uint c)" by (rule ucast_eq)
  show "\<bar>uint c\<bar> \<le> 65535" using uint16_less [of c] uint_ge_0 [of c] by linarith
  show "(65535 :: int) < 9223372036854775808" by simp
qed

lemma rep64_ucast32:
  assumes "uint (D :: u32) < 16777216"
  shows "rep64 (ucast D) (uint D) 16777215"
proof (rule rep64_I)
  show "(ucast D :: i64) = word_of_int (uint D)" by (rule ucast_eq)
  show "\<bar>uint D\<bar> \<le> 16777215" using assms uint_ge_0 [of D] by linarith
  show "(16777215 :: int) < 9223372036854775808" by simp
qed

lemma rep64_scast32:
  assumes "rep32 w k B"
  shows "rep64 (scast w) k B"
proof (rule rep64_I)
  show "(scast w :: i64) = word_of_int k"
    by (simp only: scast_eq rep32_sint [OF assms])
  show "\<bar>k\<bar> \<le> B" by (rule rep32_D(2) [OF assms])
  show "B < 9223372036854775808" using rep32_D(3) [OF assms] by linarith
qed

lemma rep32_of_sint: "\<bar>sint w\<bar> \<le> B \<Longrightarrow> B < 2147483648 \<Longrightarrow> rep32 w (sint w) B"
  by (rule rep32_I) simp_all

lemma ucast_rep64_sint32:
  assumes "rep64 w k B" "B < 2147483648"
  shows "sint (ucast w :: i32) = k"
proof -
  have "(ucast w :: i32) = word_of_int k"
    by (simp only: rep64_D(1) [OF assms(1)] ucast_64_32)
  moreover have "- 2147483648 \<le> k" "k < 2147483648"
    using rep64_D(2) [OF assms(1)] assms(2) by linarith+
  ultimately show ?thesis
    by (simp only: sint32_eq)
qed

text \<open>A 32-bit value widened to 64 bits, whatever it is, and a sum of two.\<close>

lemma rep64_widened:
  fixes x :: i32
  shows "rep64 (scast x) (sint (scast x :: i64)) 2147483648"
proof (rule rep64_I)
  have b: "- 2147483648 \<le> sint x" "sint x < 2147483648"
    using sint_ge [of x] sint_lt [of x] by simp_all
  have e: "(scast x :: i64) = word_of_int (sint x)"
    by (rule scast_eq)
  have s': "sint (word_of_int (sint x) :: i64) = sint x"
    using b by (intro sint64_eq) linarith+
  then have s: "sint (scast x :: i64) = sint x"
    by (simp only: e)
  show "(scast x :: i64) = word_of_int (sint (scast x :: i64))"
    by (simp only: e s')
  show "\<bar>sint (scast x :: i64)\<bar> \<le> 2147483648"
    unfolding s using b by linarith
  show "(2147483648 :: int) < 9223372036854775808" by simp
qed

lemma rep64_widened_if:
  fixes x :: i32
  shows "rep64 (if c then scast x else 0) (sint (if c then scast x else 0 :: i64)) 2147483648"
proof (cases c)
  case True
  then show ?thesis by (simp only: if_True rep64_widened)
next
  case False
  then show ?thesis by (simp add: rep64_def)
qed

lemma rep64_sum_widened:
  fixes a b :: i64
  assumes "rep64 a (sint a) 2147483648" "rep64 b (sint b) 2147483648"
  shows "rep64 (a + b) (sint (a + b)) 4294967296"
proof -
  have "rep64 (a + b) (sint a + sint b) (2147483648 + 2147483648)"
    by (rule rep64_add [OF assms]) simp
  then have r: "rep64 (a + b) (sint a + sint b) 4294967296"
    by simp
  from rep64_sint [OF r] r show ?thesis
    by simp
qed

section \<open>The first-order terms\<close>

lemma dT_code_sint:
  assumes "uint D2 < 2 ^ 24"
  shows "sint (dT_code d D2) = claimed_dT (coefficients d) (uint D2)"
    and "\<bar>claimed_dT (coefficients d) (uint D2)\<bar> \<le> 16777215"
proof -
  let ?c4 = "filterCoefficient d ! 4"
  have b: "0 \<le> uint D2" "0 \<le> uint ?c4" "uint ?c4 < 65536" "uint D2 < 16777216"
    using assms uint16_less [of ?c4] by simp_all
  then show "\<bar>claimed_dT (coefficients d) (uint D2)\<bar> \<le> 16777215"
    unfolding claimed_dT_def coefficients_def by linarith
  have "D2 - ucast ?c4 * 256 = word_of_int (uint D2) - word_of_int (uint ?c4) * word_of_int 256"
    by (simp only: ucast_eq [of ?c4] word_of_int_uint word_of_int_numeral)
  also have "\<dots> = word_of_int (uint D2 - uint ?c4 * 256)"
    by (simp only: wi_homs)
  finally have "sint (D2 - ucast ?c4 * 256 :: i32) = sint (word_of_int (uint D2 - uint ?c4 * 256) :: i32)"
    by (simp only:)
  also have "\<dots> = uint D2 - uint ?c4 * 256"
    using b by (intro sint32_eq) linarith+
  finally show "sint (dT_code d D2) = claimed_dT (coefficients d) (uint D2)"
    by (simp only: dT_code_def claimed_dT_def coefficients_def)
qed

lemma temperature_code_rep:
  assumes D2: "uint D2 < 2 ^ 24"
  shows "rep64 (2000 + sdiv64 (scast (dT_code d D2) * ucast (filterCoefficient d ! 5)) 8388608)
           (claimed_TEMP (coefficients d) (uint D2)) (2000 + 16777215 * 65535 div 8388608)"
proof -
  have "\<bar>sint (dT_code d D2)\<bar> \<le> 16777215"
    using dT_code_sint [OF D2, of d] by (simp only:)
  then have "rep64 (scast (dT_code d D2)) (sint (dT_code d D2)) 16777215"
    by (intro rep64_scast32 rep32_of_sint) simp_all
  then have rdT: "rep64 (scast (dT_code d D2)) (claimed_dT (coefficients d) (uint D2)) 16777215"
    by (simp only: dT_code_sint(1) [OF D2])
  show ?thesis
    unfolding claimed_TEMP_def coefficients_def
    by (rule rep64_add [OF rep64_numeral
          rep64_sdiv [OF rep64_mult [OF rdT [unfolded coefficients_def] rep64_ucast16] rep64_numeral]])
       simp_all
qed

lemma temperature_code_sint:
  assumes D2: "uint D2 < 2 ^ 24"
  shows "sint (temperature_code d D2) = claimed_TEMP (coefficients d) (uint D2)"
  unfolding temperature_code_def
  by (rule ucast_rep64_sint32 [OF temperature_code_rep [OF D2]]) simp

section \<open>The temperature correction\<close>

text \<open>
  A square is never \<open>2^31\<close> modulo \<open>2^32\<close>: the 32-bit product \<open>dT * dT\<close>, read as
  signed, is never \<open>-2^31\<close>, so its quotient by \<open>2^31\<close> is always 0.
\<close>

lemma square_mod_power_of_four:
  "(x::int) * x mod 2 ^ (2 * n + 2) \<noteq> 2 ^ (2 * n + 1)"
proof (induction n arbitrary: x)
  case 0
  show ?case
  proof (cases "even x")
    case True
    then obtain y where "x = 2 * y" by (auto elim: evenE)
    then have "x * x = 4 * (y * y)" by simp
    then show ?thesis by simp
  next
    case False
    then obtain y where "x = 2 * y + 1" by (auto elim: oddE)
    then have "x * x = 1 + 4 * (y * y + y)" by (simp add: algebra_simps)
    then have "x * x mod 4 = 1 mod 4" by (simp only: mod_mult_self2)
    then show ?thesis by simp
  qed
next
  case (Suc n)
  show ?case
  proof
    assume a: "x * x mod 2 ^ (2 * Suc n + 2) = 2 ^ (2 * Suc n + 1)"
    have "even (x * x mod 2 ^ (2 * Suc n + 2))"
      by (simp only: a) simp
    moreover have "(2::int) dvd 2 ^ (2 * Suc n + 2)"
      by simp
    ultimately have "even (x * x)"
      by (simp only: dvd_mod_iff)
    then have "even x" by simp
    then obtain y where x: "x = 2 * y" by (auto elim: evenE)
    have "x * x mod 2 ^ (2 * Suc n + 2) = (4 * (y * y)) mod (4 * 2 ^ (2 * n + 2))"
      by (simp add: x)
    also have "\<dots> = 4 * (y * y mod 2 ^ (2 * n + 2))"
      by (rule mult_mod_right [symmetric])
    finally have "4 * (y * y mod 2 ^ (2 * n + 2)) = 4 * 2 ^ (2 * n + 1)"
      using a by simp
    then have "y * y mod 2 ^ (2 * n + 2) = 2 ^ (2 * n + 1)"
      by simp
    with Suc.IH [of y] show False by simp
  qed
qed

lemma square_mod_2_32: "(x::int) * x mod 4294967296 \<noteq> 2147483648"
  using square_mod_power_of_four [of x 15] by simp

lemma wrapped_square_quotient:
  fixes x :: i32
  shows "sint (x * x) sdiv 2 ^ 31 = 0"
proof -
  have x: "(word_of_int (sint x) :: i32) = x"
    by simp
  have p: "x * x = word_of_int (sint x * sint x)"
    by (simp only: x flip: wi_hom_mult)
  have "sint (x * x) \<noteq> - 2147483648"
  proof
    assume "sint (x * x) = - 2147483648"
    then have "sint (word_of_int (sint x * sint x) :: i32) = - 2147483648"
      by (simp only: p)
    moreover have "sint (word_of_int m :: i32) = signed_take_bit 31 m" for m
      by (simp add: signed_of_int)
    ultimately have "signed_take_bit 31 (sint x * sint x) = - 2147483648"
      by (simp only:)
    moreover have "signed_take_bit 31 (sint x * sint x)
        = take_bit 32 (sint x * sint x + 2147483648) - 2147483648"
      using signed_take_bit_eq_take_bit_shift [of 31 "sint x * sint x"] by simp
    ultimately have "take_bit 32 (sint x * sint x + 2147483648) = (0::int)"
      by linarith
    then have z: "(sint x * sint x + 2147483648) mod 4294967296 = 0"
      by (simp add: take_bit_eq_mod)
    have "sint x * sint x mod 4294967296
        = ((sint x * sint x + 2147483648) mod 4294967296 - 2147483648) mod 4294967296"
      by (simp add: mod_diff_left_eq)
    then have "sint x * sint x mod 4294967296 = 2147483648"
      by (simp only: z) simp
    then show False
      using square_mod_2_32 [of "sint x"] by simp
  qed
  moreover have "- 2147483648 \<le> sint (x * x)" "sint (x * x) < 2147483648"
    using sint_ge [of "x * x"] sint_lt [of "x * x"] by simp_all
  ultimately have "\<bar>sint (x * x)\<bar> < 2147483648"
    by linarith
  then show ?thesis
    by (simp add: sdiv_small)
qed

lemma readTemperature_eq:
  "readTemperature compensation d w =
     (real_of_int (sint (temperature_code d (raw24 w))) / 100,
      d\<lparr>temperature2 := 0\<rparr>,
      snd (readRawTemperature d w))"
  by (simp add: readTemperature_def readRawTemperature_eq Let_def word_sless_alt
        wrapped_square_quotient [simplified] temperature_code_def dT_code_def)

text \<open>
  Whatever the flag, \<open>readTemperature\<close> returns the first-order temperature: the
  correction it subtracts is 0 for every input.
\<close>

lemma readTemperature_ignores_compensation:
  "readTemperature compensation d w =
     (claimed_temperature False (coefficients d) (uint (raw24 w)),
      d\<lparr>temperature2 := 0\<rparr>,
      snd (readRawTemperature d w))"
  by (simp add: readTemperature_eq temperature_code_sint [OF raw24_less]
        claimed_temperature_def claimed_T2_def)

text \<open>
  It agrees with the stated formula when no compensation is asked for, and with
  compensation as long as the stated correction is itself 0: from 20 degrees up, and
  below while \<open>dT * dT < 2^31\<close>.
\<close>

lemma readTemperature_claimed:
  assumes "claimed_T2 compensation (coefficients d) (uint (raw24 w)) = 0"
  shows "fst (readTemperature compensation d w)
           = claimed_temperature compensation (coefficients d) (uint (raw24 w))"
  using assms by (simp add: readTemperature_ignores_compensation claimed_temperature_def claimed_T2_def)

lemma claimed_T2_small:
  assumes "\<bar>claimed_dT C D2\<bar> \<le> 46340"
  shows "claimed_T2 compensation C D2 = 0"
proof -
  have "\<bar>claimed_dT C D2 * claimed_dT C D2\<bar> \<le> 46340 * 46340"
    by (rule abs_mult_le [OF assms assms])
  then have "\<bar>claimed_dT C D2 * claimed_dT C D2\<bar> < 2 ^ 31"
    by simp
  then show ?thesis
    by (simp only: claimed_T2_def sdiv_small if_cancel)
qed

section \<open>The pressure computation\<close>

lemma readPressure_eq:
  "readPressure compensation d w =
     (let D1 = raw24 w;
          D2 = raw24 (snd (readRawPressure d w));
          offset = (ucast (filterCoefficient d ! 1) * 65536
                      + sdiv64 (ucast (filterCoefficient d ! 3) * scast (dT_code d D2)) 128 :: i64);
          sensitivity = (ucast (filterCoefficient d ! 0) * 32768
                      + sdiv64 (ucast (filterCoefficient d ! 2) * scast (dT_code d D2)) 256 :: i64);
          o2 = (if compensation then off2_code (temperature_code d D2) else 0);
          s2 = (if compensation then sens2_code (temperature_code d D2) else 0)
      in (ucast (sdiv64 (sdiv64 (ucast D1 * (sensitivity - s2)) 2097152 - (offset - o2)) 32768),
          (if compensation
           then d\<lparr>offset2 := off2_code (temperature_code d D2),
                  sensitivity2 := sens2_code (temperature_code d D2)\<rparr>
           else d),
          snd (readRawTemperature d (snd (readRawPressure d w)))))"
  by (simp add: readPressure_def readRawTemperature_eq readRawPressure_eq Let_def
        off2_code_def sens2_code_def temperature_code_def dT_code_def)

lemma sless_2000: "(t :: i32) <s 2000 \<longleftrightarrow> sint t < 2000"
  by (simp add: word_sless_alt)

lemma sless_minus_1500: "(t :: i32) <s - 1500 \<longleftrightarrow> sint t < - 1500"
  by (simp add: word_sless_alt)

text \<open>The 32-bit squares hold their exact values from \<open>-150\<close> degrees up.\<close>

lemma low_term_rep:
  fixes t :: i32
  assumes T: "sint t = T" and lo: "- 15000 \<le> T" and hi: "T < 2000"
  shows "rep32 (5 * ((t - 2000) * (t - 2000))) (5 * ((T - 2000) * (T - 2000))) (5 * (17000 * 17000))"
proof -
  have "rep32 t (sint t) 17000"
    using T lo hi by (intro rep32_of_sint) simp_all
  then have t: "rep32 t T 17000"
    by (simp only: T)
  have "rep32 (t - 2000) (T - 2000) (17000 + 2000)"
    by (rule rep32_sub [OF t rep32_numeral]) simp_all
  moreover have "\<bar>T - 2000\<bar> \<le> 17000"
    using lo hi by linarith
  ultimately have d: "rep32 (t - 2000) (T - 2000) 17000"
    by (rule rep32_tighten) simp
  have sq: "rep32 ((t - 2000) * (t - 2000)) ((T - 2000) * (T - 2000)) (17000 * 17000)"
    by (rule rep32_mult [OF d d]) simp
  show ?thesis
    by (rule rep32_mult [OF rep32_numeral sq]) simp_all
qed

lemma very_low_term_rep:
  fixes t :: i32
  assumes T: "sint t = T" and lo: "- 15000 \<le> T" and hi: "T < - 1500"
  shows "rep32 ((t + 1500) * (t + 1500)) ((T + 1500) * (T + 1500)) (13500 * 13500)"
proof -
  have "rep32 t (sint t) 15000"
    using T lo hi by (intro rep32_of_sint) simp_all
  then have t: "rep32 t T 15000"
    by (simp only: T)
  have "rep32 (t + 1500) (T + 1500) (15000 + 1500)"
    by (rule rep32_add [OF t rep32_numeral]) simp_all
  moreover have "\<bar>T + 1500\<bar> \<le> 13500"
    using lo hi by linarith
  ultimately have d: "rep32 (t + 1500) (T + 1500) 13500"
    by (rule rep32_tighten) simp
  show ?thesis
    by (rule rep32_mult [OF d d]) simp
qed

lemma off2_code_rep:
  fixes t :: i32
  assumes T: "sint t = T" and lo: "- 15000 \<le> T"
  shows "rep64 (off2_code t)
           ((if T < 2000 then (5 * ((T - 2000) * (T - 2000))) sdiv 2 else 0)
              + (if T < - 1500 then 7 * ((T + 1500) * (T + 1500)) else 0))
           (5 * (17000 * 17000) div 2 + 7 * (13500 * 13500))"
proof -
  have a: "rep64 (if t <s 2000 then scast (sdiv32 (5 * ((t - 2000) * (t - 2000))) 2) else 0)
             (if T < 2000 then (5 * ((T - 2000) * (T - 2000))) sdiv 2 else 0)
             (5 * (17000 * 17000) div 2)"
  proof (cases "T < 2000")
    case True
    have "rep32 (sdiv32 (5 * ((t - 2000) * (t - 2000))) 2) ((5 * ((T - 2000) * (T - 2000))) sdiv 2)
            (5 * (17000 * 17000) div 2)"
      by (rule rep32_sdiv [OF low_term_rep [OF T lo True] rep32_numeral]) simp_all
    then show ?thesis
      using True by (simp add: sless_2000 T rep64_scast32)
  next
    case False
    then show ?thesis
      by (simp add: sless_2000 T rep64_def)
  qed
  have b: "rep64 (if t <s - 1500 then scast (7 * ((t + 1500) * (t + 1500))) else 0)
             (if T < - 1500 then 7 * ((T + 1500) * (T + 1500)) else 0)
             (7 * (13500 * 13500))"
  proof (cases "T < - 1500")
    case True
    have "rep32 (7 * ((t + 1500) * (t + 1500))) (7 * ((T + 1500) * (T + 1500))) (7 * (13500 * 13500))"
      by (rule rep32_mult [OF rep32_numeral very_low_term_rep [OF T lo True]]) simp_all
    then show ?thesis
      using True by (simp add: sless_minus_1500 T rep64_scast32)
  next
    case False
    then show ?thesis
      by (simp add: sless_minus_1500 T rep64_def)
  qed
  show ?thesis
    unfolding off2_code_def by (rule rep64_add [OF a b]) simp
qed

lemma sens2_code_rep:
  fixes t :: i32
  assumes T: "sint t = T" and lo: "- 15000 \<le> T"
  shows "rep64 (sens2_code t)
           ((if T < 2000 then (5 * ((T - 2000) * (T - 2000))) sdiv 4 else 0)
              + (if T < - 1500 then (11 * ((T + 1500) * (T + 1500))) sdiv 2 else 0))
           (5 * (17000 * 17000) div 4 + 11 * (13500 * 13500) div 2)"
proof -
  have a: "rep64 (if t <s 2000 then scast (sdiv32 (5 * ((t - 2000) * (t - 2000))) 4) else 0)
             (if T < 2000 then (5 * ((T - 2000) * (T - 2000))) sdiv 4 else 0)
             (5 * (17000 * 17000) div 4)"
  proof (cases "T < 2000")
    case True
    have "rep32 (sdiv32 (5 * ((t - 2000) * (t - 2000))) 4) ((5 * ((T - 2000) * (T - 2000))) sdiv 4)
            (5 * (17000 * 17000) div 4)"
      by (rule rep32_sdiv [OF low_term_rep [OF T lo True] rep32_numeral]) simp_all
    then show ?thesis
      using True by (simp add: sless_2000 T rep64_scast32)
  next
    case False
    then show ?thesis
      by (simp add: sless_2000 T rep64_def)
  qed
  have b: "rep64 (if t <s - 1500 then scast (sdiv32 (11 * ((t + 1500) * (t + 1500))) 2) else 0)
             (if T < - 1500 then (11 * ((T + 1500) * (T + 1500))) sdiv 2 else 0)
             (11 * (13500 * 13500) div 2)"
  proof (cases "T < - 1500")
    case True
    have "rep32 (11 * ((t + 1500) * (t + 1500))) (11 * ((T + 1500) * (T + 1500)))
            (11 * (13500 * 13500))"
      by (rule rep32_mult [OF rep32_numeral very_low_term_rep [OF T lo True]]) simp_all
    then have "rep32 (sdiv32 (11 * ((t + 1500) * (t + 1500))) 2)
            ((11 * ((T + 1500) * (T + 1500))) sdiv 2) (11 * (13500 * 13500) div 2)"
      by (rule rep32_sdiv [OF _ rep32_numeral]) simp_all
    then show ?thesis
      using True by (simp add: sless_minus_1500 T rep64_scast32)
  next
    case False
    then show ?thesis
      by (simp add: sless_minus_1500 T rep64_def)
  qed
  show ?thesis
    unfolding sens2_code_def by (rule rep64_add [OF a b]) simp
qed

lemma claimed_OFF2_alt:
  "claimed_OFF2 True C D2 =
     (if claimed_TEMP C D2 < 2000
      then (5 * ((claimed_TEMP C D2 - 2000) * (claimed_TEMP C D2 - 2000))) sdiv 2 else 0)
       + (if claimed_TEMP C D2 < - 1500
          then 7 * ((claimed_TEMP C D2 + 1500) * (claimed_TEMP C D2 + 1500)) else 0)"
  by (simp add: claimed_OFF2_def Let_def power2_eq_square)

lemma claimed_SENS2_alt:
  "claimed_SENS2 True C D2 =
     (if claimed_TEMP C D2 < 2000
      then (5 * ((claimed_TEMP C D2 - 2000) * (claimed_TEMP C D2 - 2000))) sdiv 4 else 0)
       + (if claimed_TEMP C D2 < - 1500
          then (11 * ((claimed_TEMP C D2 + 1500) * (claimed_TEMP C D2 + 1500))) sdiv 2 else 0)"
  by (simp add: claimed_SENS2_def Let_def power2_eq_square)

text \<open>
  From \<open>-150\<close> degrees up, the members \<open>offset2\<close> and \<open>sensitivity2\<close> receive the stated
  second-order corrections.
\<close>

lemma second_order_exact:
  assumes D2: "uint D2 < 2 ^ 24" and lo: "- 15000 \<le> claimed_TEMP (coefficients d) (uint D2)"
  shows "sint (off2_code (temperature_code d D2)) = claimed_OFF2 True (coefficients d) (uint D2)"
    and "sint (sens2_code (temperature_code d D2)) = claimed_SENS2 True (coefficients d) (uint D2)"
proof -
  show "sint (off2_code (temperature_code d D2)) = claimed_OFF2 True (coefficients d) (uint D2)"
    unfolding claimed_OFF2_alt
    by (rule rep64_sint [OF off2_code_rep [OF temperature_code_sint [OF D2] lo]])
  show "sint (sens2_code (temperature_code d D2)) = claimed_SENS2 True (coefficients d) (uint D2)"
    unfolding claimed_SENS2_alt
    by (rule rep64_sint [OF sens2_code_rep [OF temperature_code_sint [OF D2] lo]])
qed

lemma off2_code_wide: "rep64 (off2_code t) (sint (off2_code t)) 4294967296"
  unfolding off2_code_def by (rule rep64_sum_widened [OF rep64_widened_if rep64_widened_if])

lemma sens2_code_wide: "rep64 (sens2_code t) (sint (sens2_code t)) 4294967296"
  unfolding sens2_code_def by (rule rep64_sum_widened [OF rep64_widened_if rep64_widened_if])

text \<open>
  The 64-bit part of \<open>readPressure\<close> never wraps, whatever the members \<open>offset2\<close> and
  \<open>sensitivity2\<close> have received: the result is the stated quotient, taken over the
  values that these members hold after the call.
\<close>

lemma readPressure_wide:
  fixes d :: MS5611 and w :: world and compensation :: bool
  defines "D1 \<equiv> raw24 w" and "D2 \<equiv> raw24 (snd (readRawPressure d w))"
  defines "d' \<equiv> fst (snd (readPressure compensation d w))"
  shows "sint (fst (readPressure compensation d w)) =
     ((uint D1 * (claimed_SENS (coefficients d) (uint D2)
                    - (if compensation then sint (sensitivity2 d') else 0))) sdiv 2097152
       - (claimed_OFF (coefficients d) (uint D2)
            - (if compensation then sint (offset2 d') else 0))) sdiv 32768"
proof -
  define offset :: i64 where
    "offset = ucast (filterCoefficient d ! 1) * 65536
                + sdiv64 (ucast (filterCoefficient d ! 3) * scast (dT_code d D2)) 128"
  define sensitivity :: i64 where
    "sensitivity = ucast (filterCoefficient d ! 0) * 32768
                + sdiv64 (ucast (filterCoefficient d ! 2) * scast (dT_code d D2)) 256"
  define o2 :: i64 where "o2 = (if compensation then off2_code (temperature_code d D2) else 0)"
  define s2 :: i64 where "s2 = (if compensation then sens2_code (temperature_code d D2) else 0)"
  define O2 :: int where "O2 = (if compensation then sint (offset2 d') else 0)"
  define S2 :: int where "S2 = (if compensation then sint (sensitivity2 d') else 0)"
  let ?C = "coefficients d"
  have code: "fst (readPressure compensation d w)
      = ucast (sdiv64 (sdiv64 (ucast D1 * (sensitivity - s2)) 2097152 - (offset - o2)) 32768)"
    by (simp only: readPressure_eq Let_def fst_conv offset_def sensitivity_def o2_def s2_def
          D1_def D2_def)
  have members: "O2 = sint o2" "S2 = sint s2"
    by (simp_all add: O2_def S2_def o2_def s2_def d'_def readPressure_eq Let_def D2_def)
  have D1: "uint D1 < 16777216" and D2: "uint D2 < 2 ^ 24"
    using raw24_less [of w] raw24_less [of "snd (readRawPressure d w)"]
    by (simp_all add: D1_def D2_def)
  have "\<bar>sint (dT_code d D2)\<bar> \<le> 16777215"
    using dT_code_sint [OF D2, of d] by (simp only:)
  then have "rep64 (scast (dT_code d D2)) (sint (dT_code d D2)) 16777215"
    by (intro rep64_scast32 rep32_of_sint) simp_all
  then have rdT: "rep64 (scast (dT_code d D2)) (claimed_dT ?C (uint D2)) 16777215"
    by (simp only: dT_code_sint(1) [OF D2])
  have off: "rep64 offset (claimed_OFF ?C (uint D2)) (65535 * 65536 + 65535 * 16777215 div 128)"
    unfolding offset_def claimed_OFF_def coefficients_def
    by (rule rep64_add [OF rep64_mult [OF rep64_ucast16 rep64_numeral]
          rep64_sdiv [OF rep64_mult [OF rep64_ucast16 rdT [unfolded coefficients_def]]
            rep64_numeral]])
       simp_all
  have sens: "rep64 sensitivity (claimed_SENS ?C (uint D2))
      (65535 * 32768 + 65535 * 16777215 div 256)"
    unfolding sensitivity_def claimed_SENS_def coefficients_def
    by (rule rep64_add [OF rep64_mult [OF rep64_ucast16 rep64_numeral]
          rep64_sdiv [OF rep64_mult [OF rep64_ucast16 rdT [unfolded coefficients_def]]
            rep64_numeral]])
       simp_all
  have o2: "rep64 o2 O2 4294967296"
  proof (cases compensation)
    case True
    then show ?thesis
      unfolding members by (simp only: o2_def if_True off2_code_wide)
  next
    case False
    then show ?thesis
      unfolding members by (simp add: o2_def rep64_def)
  qed
  have s2: "rep64 s2 S2 4294967296"
  proof (cases compensation)
    case True
    then show ?thesis
      unfolding members by (simp only: s2_def if_True sens2_code_wide)
  next
    case False
    then show ?thesis
      unfolding members by (simp add: s2_def rep64_def)
  qed
  have offc: "rep64 (offset - o2) (claimed_OFF ?C (uint D2) - O2)
      (65535 * 65536 + 65535 * 16777215 div 128 + 4294967296)"
    by (rule rep64_sub [OF off o2]) simp
  have sensc: "rep64 (sensitivity - s2) (claimed_SENS ?C (uint D2) - S2)
      (65535 * 32768 + 65535 * 16777215 div 256 + 4294967296)"
    by (rule rep64_sub [OF sens s2]) simp
  have prod: "rep64 (ucast D1 * (sensitivity - s2)) (uint D1 * (claimed_SENS ?C (uint D2) - S2))
      (16777215 * (65535 * 32768 + 65535 * 16777215 div 256 + 4294967296))"
    by (rule rep64_mult [OF rep64_ucast32 [OF D1] sensc]) simp
  have quot: "rep64 (sdiv64 (ucast D1 * (sensitivity - s2)) 2097152)
      ((uint D1 * (claimed_SENS ?C (uint D2) - S2)) sdiv 2097152)
      (16777215 * (65535 * 32768 + 65535 * 16777215 div 256 + 4294967296) div 2097152)"
    by (rule rep64_sdiv [OF prod rep64_numeral]) simp_all
  have diff: "rep64 (sdiv64 (ucast D1 * (sensitivity - s2)) 2097152 - (offset - o2))
      ((uint D1 * (claimed_SENS ?C (uint D2) - S2)) sdiv 2097152 - (claimed_OFF ?C (uint D2) - O2))
      (16777215 * (65535 * 32768 + 65535 * 16777215 div 256 + 4294967296) div 2097152
        + (65535 * 65536 + 65535 * 16777215 div 128 + 4294967296))"
    by (rule rep64_sub [OF quot offc]) simp
  have res: "rep64 (sdiv64 (sdiv64 (ucast D1 * (sensitivity - s2)) 2097152 - (offset - o2)) 32768)
      (((uint D1 * (claimed_SENS ?C (uint D2) - S2)) sdiv 2097152
          - (claimed_OFF ?C (uint D2) - O2)) sdiv 32768)
      ((16777215 * (65535 * 32768 + 65535 * 16777215 div 256 + 4294967296) div 2097152
        + (65535 * 65536 + 65535 * 16777215 div 128 + 4294967296)) div 32768)"
    by (rule rep64_sdiv [OF diff rep64_numeral]) simp_all
  have "sint (fst (readPressure compensation d w))
      = ((uint D1 * (claimed_SENS ?C (uint D2) - S2)) sdiv 2097152
          - (claimed_OFF ?C (uint D2) - O2)) sdiv 32768"
    unfolding code by (rule ucast_rep64_sint32 [OF res]) simp
  then show ?thesis
    by (simp only: O2_def S2_def)
qed

text \<open>
  Hence \<open>readPressure\<close> returns the stated pressure without compensation, and with
  compensation whenever the first-order temperature is \<open>-150\<close> degrees or more.
\<close>

lemma readPressure_claimed:
  fixes d :: MS5611 and w :: world
  defines "D1 \<equiv> raw24 w" and "D2 \<equiv> raw24 (snd (readRawPressure d w))"
  assumes lo: "compensation \<longrightarrow> - 15000 \<le> claimed_TEMP (coefficients d) (uint D2)"
  shows "sint (fst (readPressure compensation d w))
           = claimed_pressure compensation (coefficients d) (uint D1) (uint D2)"
proof (cases compensation)
  case False
  then show ?thesis
    unfolding D1_def D2_def
    by (simp add: readPressure_wide claimed_pressure_def claimed_OFF2_def claimed_SENS2_def)
next
  case True
  have D2: "uint D2 < 2 ^ 24"
    using raw24_less [of "snd (readRawPressure d w)"] by (simp add: D2_def)
  from True lo have lo': "- 15000 \<le> claimed_TEMP (coefficients d) (uint D2)"
    by simp
  have "offset2 (fst (snd (readPressure True d w))) = off2_code (temperature_code d D2)"
    "sensitivity2 (fst (snd (readPressure True d w))) = sens2_code (temperature_code d D2)"
    by (simp_all add: readPressure_eq Let_def D2_def)
  then have "sint (offset2 (fst (snd (readPressure True d w))))
        = claimed_OFF2 True (coefficients d) (uint D2)"
    "sint (sensitivity2 (fst (snd (readPressure True d w))))
        = claimed_SENS2 True (coefficients d) (uint D2)"
    by (simp_all only: second_order_exact [OF D2 lo'])
  with True show ?thesis
    unfolding D1_def D2_def
    by (simp add: readPressure_wide claimed_pressure_def)
qed

section \<open>The compensation claims at concrete inputs\<close>

text \<open>
  In the inputs below that show a defect, the bus hands over two bytes for each
  request, the number that \<open>readRegister24\<close> asks for, and the third read yields \<open>-1\<close>:
  the raw samples end in \<open>0xFF\<close>.
\<close>

lemma raw24_answering:
  "raw24 (answering (a # b # c # bs)) =
     push_bit 16 (ucast (word_of_int a :: u8)) OR push_bit 8 (ucast (word_of_int b :: u8))
       OR ucast (word_of_int c :: u8)"
  by (simp add: raw24_def next_read_def answering_def)

lemmas claimed_defs =
  claimed_temperature_def claimed_T2_def claimed_TEMP_def claimed_dT_def claimed_pressure_def
  claimed_OFF_def claimed_SENS_def claimed_OFF2_def claimed_SENS2_def coefficients_def
  datasheet_sensor_def datasheet_coefficients_def signed_divide_int_def

lemma raw_samples:
  "fst (readRawTemperature datasheet_sensor (answering [0x98, 0x09, 0x02])) = 9963778"
  "fst (readRawTemperature datasheet_sensor (answering [0x82, 0xC1, 0x3E])) = 8569150"
  "fst (readRawPressure datasheet_sensor (answering (0x8A # 0xA2 # 0x1A # bs))) = 9085466"
  "fst (readRawTemperature datasheet_sensor
     (snd (readRawPressure datasheet_sensor (answering [0x8A, 0xA2, 0x1A, 0x98, 0x09, 0x02]))))
     = 9963778"
  "fst (readRawTemperature datasheet_sensor
     (snd (readRawPressure datasheet_sensor (answering [0x8A, 0xA2, 0x1A, 0x82, 0xC1, 0x3E]))))
     = 8569150"
  by (simp_all add: readRawTemperature_eq readRawPressure_eq raw24_def next_read_def answering_def)

lemma raw_samples_two_bytes:
  "fst (readRawTemperature datasheet_sensor (answering [0x7A, 0x12])) = 8000255"
  "fst (readRawPressure datasheet_sensor (answering [0x8A, 0xA2, - 1, 0x00, 0x00])) = 9085695"
  "fst (readRawTemperature datasheet_sensor
     (snd (readRawPressure datasheet_sensor (answering [0x8A, 0xA2, - 1, 0x00, 0x00])))) = 255"
  by code_simp+

lemma cold_temperature_code:
  "fst (readTemperature True datasheet_sensor (answering [0x7A, 0x12])) = 88 / 100"
proof -
  have "uint (raw24 (answering [0x7A, 0x12])) = 8000255"
    by code_simp
  then show ?thesis
    by (simp add: readTemperature_ignores_compensation claimed_defs)
qed

lemma cold_temperature_claimed:
  "claimed_TEMP (coefficients datasheet_sensor) 8000255 = 88"
  "claimed_T2 True (coefficients datasheet_sensor) 8000255 = 149"
  "claimed_temperature True (coefficients datasheet_sensor) 8000255 = - 61 / 100"
  by (simp_all add: claimed_defs)

text \<open>
  C1, where the code departs from it.  With the data sheet's coefficients and the raw
  sample \<open>D2 = 8000255\<close> the first-order temperature is 0.88 degrees, below 20, and the
  stated correction \<open>dT * dT / 2^31\<close> is 149 hundredths: with compensation the claim
  gives -0.61 degrees.  \<open>readTemperature(true)\<close> returns 0.88 degrees.  (By
  \<open>readTemperature_ignores_compensation\<close> it returns the first-order temperature for
  every input: the test \<open>temperature2 < 2000\<close> is made on the member just set to 0, and
  the quotient of the 32-bit product \<open>dT * dT\<close> by \<open>2^31\<close> is always 0.)
\<close>

theorem readTemperature_compensation_cold_input:
  "fst (readRawTemperature datasheet_sensor (answering [0x7A, 0x12])) = 8000255
   \<and> claimed_TEMP (coefficients datasheet_sensor) 8000255 = 88
   \<and> claimed_T2 True (coefficients datasheet_sensor) 8000255 = 149
   \<and> claimed_temperature True (coefficients datasheet_sensor) 8000255 = - 61 / 100
   \<and> fst (readTemperature True datasheet_sensor (answering [0x7A, 0x12])) = 88 / 100"
  by (simp only: raw_samples_two_bytes cold_temperature_code cold_temperature_claimed simp_thms)

lemma extreme_pressure_code:
  "sint (fst (readPressure True datasheet_sensor (answering [0x8A, 0xA2, - 1, 0x00, 0x00])))
     = 151588"
  by code_simp

lemma extreme_pressure_claimed:
  "claimed_TEMP (coefficients datasheet_sensor) 255 = - 26912"
  "claimed_pressure True (coefficients datasheet_sensor) 9085695 255 = - 361623"
  by (simp_all add: claimed_defs Let_def)

text \<open>
  C2, where the code departs from it.  With the data sheet's coefficients, \<open>D1 = 9085695\<close>
  and \<open>D2 = 255\<close>, the first-order temperature is -269.12 degrees and the stated
  formulas with compensation give -361623; \<open>readPressure(true)\<close> returns 151588, because
  the 32-bit products \<open>5 * (TEMP - 2000)^2\<close>, \<open>7 * (TEMP + 1500)^2\<close> and
  \<open>11 * (TEMP + 1500)^2\<close> wrap around.  (By \<open>readPressure_claimed\<close> the code agrees with
  the stated formulas without compensation, and with compensation from -150 degrees
  up.)
\<close>

theorem readPressure_compensation_extreme_input:
  "fst (readRawPressure datasheet_sensor (answering [0x8A, 0xA2, - 1, 0x00, 0x00])) = 9085695
   \<and> fst (readRawTemperature datasheet_sensor
        (snd (readRawPressure datasheet_sensor (answering [0x8A, 0xA2, - 1, 0x00, 0x00])))) = 255
   \<and> claimed_TEMP (coefficients datasheet_sensor) 255 = - 26912
   \<and> claimed_pressure True (coefficients datasheet_sensor) 9085695 255 = - 361623
   \<and> sint (fst (readPressure True datasheet_sensor
        (answering [0x8A, 0xA2, - 1, 0x00, 0x00]))) = 151588"
  by (simp only: raw_samples_two_bytes extreme_pressure_code extreme_pressure_claimed
      simp_thms)

lemma example_temperature_code:
  "fst (readTemperature False datasheet_sensor (answering [0x98, 0x09, 0x02])) = 6714 / 100"
  "fst (readTemperature False datasheet_sensor (answering [0x82, 0xC1, 0x3E])) = 2007 / 100"
  by (simp_all add: readTemperature_ignores_compensation raw24_answering claimed_defs)

lemma example_pressure_code:
  "sint (fst (readPressure False datasheet_sensor
     (answering [0x8A, 0xA2, 0x1A, 0x98, 0x09, 0x02]))) = 109061"
  "sint (fst (readPressure False datasheet_sensor
     (answering [0x8A, 0xA2, 0x1A, 0x82, 0xC1, 0x3E]))) = 100009"
  by code_simp+

text \<open>
  C3, as the code has it.  With the data sheet's coefficients, \<open>D2 = 9963778\<close> gives an
  uncompensated temperature of 67.14 degrees and, with \<open>D1 = 9085466\<close>, an uncompensated
  pressure of 109061 Pa.  The data sheet's worked example has \<open>D2 = 8569150\<close>: there
  the temperature is 20.07 degrees and the pressure 100009 Pa.
\<close>

theorem datasheet_example:
  "fst (readRawTemperature datasheet_sensor (answering [0x98, 0x09, 0x02])) = 9963778
   \<and> fst (readTemperature False datasheet_sensor (answering [0x98, 0x09, 0x02])) = 6714 / 100
   \<and> fst (readRawPressure datasheet_sensor (answering [0x8A, 0xA2, 0x1A, 0x98, 0x09, 0x02]))
       = 9085466
   \<and> fst (readRawTemperature datasheet_sensor
        (snd (readRawPressure datasheet_sensor (answering [0x8A, 0xA2, 0x1A, 0x98, 0x09, 0x02]))))
       = 9963778
   \<and> sint (fst (readPressure False datasheet_sensor
        (answering [0x8A, 0xA2, 0x1A, 0x98, 0x09, 0x02]))) = 109061
   \<and> fst (readRawTemperature datasheet_sensor (answering [0x82, 0xC1, 0x3E])) = 8569150
   \<and> fst (readTemperature False datasheet_sensor (answering [0x82, 0xC1, 0x3E])) = 2007 / 100
   \<and> fst (readRawTemperature datasheet_sensor
        (snd (readRawPressure datasheet_sensor (answering [0x8A, 0xA2, 0x1A, 0x82, 0xC1, 0x3E]))))
       = 8569150
   \<and> sint (fst (readPressure False datasheet_sensor
        (answering [0x8A, 0xA2, 0x1A, 0x82, 0xC1, 0x3E]))) = 100009"
  by (simp only: raw_samples example_temperature_code example_pressure_code simp_thms)

text \<open>
  C3 as stated fails: with \<open>D2 = 9963778\<close> the temperature is not within one degree of
  20.01 and the pressure not within 1000 Pa of 100009.
\<close>

theorem datasheet_example_as_stated_fails:
  "\<not> \<bar>fst (readTemperature False datasheet_sensor (answering [0x98, 0x09, 0x02])) - 2001 / 100\<bar>
       \<le> 1
   \<and> \<not> \<bar>sint (fst (readPressure False datasheet_sensor
            (answering [0x8A, 0xA2, 0x1A, 0x98, 0x09, 0x02]))) - 100009\<bar> \<le> 1000"
  by (simp add: example_temperature_code example_pressure_code)

lemma wrapped_members_code:
  "temperature2 (fst (snd (readTemperature True datasheet_sensor (answering [0x7A, 0x12])))) = 0"
  "sint (offset2 (fst (snd (readPressure True datasheet_sensor
     (answering [0x8A, 0xA2, - 1, 0x00, 0x00]))))) = 167696624"
  "sint (sensitivity2 (fst (snd (readPressure True datasheet_sensor
     (answering [0x8A, 0xA2, - 1, 0x00, 0x00]))))) = - 772095848"
  by (simp add: readTemperature_ignores_compensation) code_simp+

lemma wrapped_members_claimed:
  "claimed_dT (coefficients datasheet_sensor) 8000255
     * claimed_dT (coefficients datasheet_sensor) 8000255 = 320955107841"
  "claimed_OFF2 True (coefficients datasheet_sensor) 255 = 6610147568"
  "claimed_SENS2 True (coefficients datasheet_sensor) 255 = 4596613272"
  by (simp_all add: claimed_defs Let_def)

text \<open>
  C4, where the code departs from it.  The second-order terms are not evaluated in 64
  bits: \<open>dT * dT\<close>, the squares \<open>(temperature - 2000)^2\<close> and \<open>(temperature + 1500)^2\<close>
  and their multiples are 32-bit operations.  With the data sheet's coefficients and
  \<open>D2 = 8000255\<close>, \<open>dT * dT\<close> is 320955107841, beyond 32 bits, and the correction
  stored in \<open>temperature2\<close> is 0 instead of 149; with \<open>D2 = 255\<close> the members \<open>offset2\<close>
  and \<open>sensitivity2\<close> receive 167696624 and -772095848 instead of 6610147568 and
  4596613272.  (By \<open>readPressure_wide\<close> the 64-bit operations, those forming \<open>OFF\<close>,
  \<open>SENS\<close> and the pressure, never wrap for any input.)
\<close>

theorem second_order_terms_wrap:
  "claimed_dT (coefficients datasheet_sensor) 8000255
     * claimed_dT (coefficients datasheet_sensor) 8000255 = 320955107841
   \<and> claimed_T2 True (coefficients datasheet_sensor) 8000255 = 149
   \<and> temperature2 (fst (snd (readTemperature True datasheet_sensor
        (answering [0x7A, 0x12])))) = 0
   \<and> claimed_OFF2 True (coefficients datasheet_sensor) 255 = 6610147568
   \<and> sint (offset2 (fst (snd (readPressure True datasheet_sensor
        (answering [0x8A, 0xA2, - 1, 0x00, 0x00]))))) = 167696624
   \<and> claimed_SENS2 True (coefficients datasheet_sensor) 255 = 4596613272
   \<and> sint (sensitivity2 (fst (snd (readPressure True datasheet_sensor
        (answering [0x8A, 0xA2, - 1, 0x00, 0x00]))))) = - 772095848"
  by (simp only: wrapped_members_code wrapped_members_claimed cold_temperature_claimed simp_thms)

section \<open>Altitude conversion over the reals\<close>

text \<open>
  C9 is about the floating-point results, which the functions over the reals do not
  give.  In exact arithmetic the altitude at the reference pressure is 0.  The round trip
  through \<open>getAltitude\<close> and \<open>getSeaLevel\<close> does not give the reference pressure back
  exactly, because the two exponents are not inverse to each other: their product is
  0.9999996995, and the result is off by the factor \<open>(p / P0) powr (1 - 0.1902949 * 5.255)\<close>.
\<close>

lemma getAltitude_reference: "0 < P0 \<Longrightarrow> getAltitude P0 P0 = 0"
  by (simp add: getAltitude_def)

lemma getSeaLevel_getAltitude:
  assumes "0 < p" "0 < P0"
  shows "getSeaLevel p (getAltitude p P0) = P0 * (p / P0) powr (1 - 0.1902949 * 5.255)"
proof -
  have "1 - 44330 * (1 - x) / 44330 = x" for x :: real
    by (simp add: field_simps)
  then have "getSeaLevel p (getAltitude p P0) = p / ((p / P0) powr 0.1902949) powr 5.255"
    by (simp only: getSeaLevel_def getAltitude_def)
  also have "\<dots> = p / (p / P0) powr (0.1902949 * 5.255)"
    by (simp only: powr_powr)
  also have "\<dots> = P0 * ((p / P0) powr 1 / (p / P0) powr (0.1902949 * 5.255))"
    using assms by (simp add: powr_one)
  also have "\<dots> = P0 * (p / P0) powr (1 - 0.1902949 * 5.255)"
    by (simp only: powr_diff)
  finally show ?thesis .
qed

lemma getSeaLevel_getAltitude_inexact: "getSeaLevel 1 (getAltitude 1 2) \<noteq> 2"
proof -
  have "getSeaLevel 1 (getAltitude 1 2) = 2 * (1 / 2) powr (1 - 0.1902949 * 5.255)"
    by (rule getSeaLevel_getAltitude) simp_all
  moreover have "(1 / 2 :: real) powr (1 - 0.1902949 * 5.255) \<noteq> 1"
    by (simp only: powr_eq_one_iff_gen) simp
  ultimately show ?thesis by simp
qed

end
